theory Spec2Isabelle
  imports Complex_Main "HOL-Library.Log_Nat"
begin

section \<open>Samples and their arithmetic\<close>

text \<open>
  A raster sample is an IEEE-754 number.  It is modelled by its value: not-a-number, one of
  the two infinities, or a finite number.  Finite arithmetic of the statistics is exact
  arithmetic on the reals (rounding of numpy's float32/float64 operations is not modelled
  there); the special values follow IEEE-754: a comparison with \<open>NaN\<close> is false, \<open>NaN\<close>
  propagates through arithmetic, \<open>inf - inf\<close> and \<open>0 * inf\<close> are \<open>NaN\<close>.
  A raster (numpy array) is the list of its samples in row-major order; all grids of one
  run have the shape of the difference raster, which has at least one sample (on some
  shapes without samples \<open>np.apply_along_axis\<close> raises, on others it does not: the list
  does not tell them apart).
\<close>

datatype fl = NaN | NInf | Fin real | PInf

datatype error = NameError | ValueError | IndexError | ZeroDivisionError
  | TypeError | AttributeError | RuntimeError | OverflowError

fun isnan :: "fl \<Rightarrow> bool" where
  "isnan NaN = True"
| "isnan _ = False"

fun isfinite :: "fl \<Rightarrow> bool" where
  "isfinite (Fin _) = True"
| "isfinite _ = False"

fun fl_le :: "fl \<Rightarrow> fl \<Rightarrow> bool" where
  "fl_le NaN _ = False"
| "fl_le _ NaN = False"
| "fl_le NInf _ = True"
| "fl_le _ PInf = True"
| "fl_le (Fin a) (Fin b) = (a \<le> b)"
| "fl_le (Fin _) NInf = False"
| "fl_le PInf _ = False"

fun fl_lt :: "fl \<Rightarrow> fl \<Rightarrow> bool" where
  "fl_lt NaN _ = False"
| "fl_lt _ NaN = False"
| "fl_lt (Fin a) (Fin b) = (a < b)"
| "fl_lt NInf NInf = False"
| "fl_lt NInf _ = True"
| "fl_lt PInf _ = False"
| "fl_lt (Fin _) PInf = True"
| "fl_lt (Fin _) NInf = False"

text \<open>\<open>==\<close> and \<open>!=\<close> of two samples: \<open>NaN\<close> is different from everything, itself included.\<close>

definition fl_eq :: "fl \<Rightarrow> fl \<Rightarrow> bool" where
  "fl_eq a b = (\<not> isnan a \<and> a = b)"

definition fl_ne :: "fl \<Rightarrow> fl \<Rightarrow> bool" where
  "fl_ne a b = (\<not> fl_eq a b)"

fun fl_neg :: "fl \<Rightarrow> fl" where
  "fl_neg NaN = NaN"
| "fl_neg NInf = PInf"
| "fl_neg PInf = NInf"
| "fl_neg (Fin a) = Fin (- a)"

fun fl_abs :: "fl \<Rightarrow> fl" where
  "fl_abs NaN = NaN"
| "fl_abs NInf = PInf"
| "fl_abs PInf = PInf"
| "fl_abs (Fin a) = Fin \<bar>a\<bar>"

fun fl_add :: "fl \<Rightarrow> fl \<Rightarrow> fl" where
  "fl_add NaN _ = NaN"
| "fl_add _ NaN = NaN"
| "fl_add (Fin a) (Fin b) = Fin (a + b)"
| "fl_add PInf NInf = NaN"
| "fl_add NInf PInf = NaN"
| "fl_add PInf _ = PInf"
| "fl_add NInf _ = NInf"
| "fl_add (Fin _) PInf = PInf"
| "fl_add (Fin _) NInf = NInf"

definition fl_sub :: "fl \<Rightarrow> fl \<Rightarrow> fl" where
  "fl_sub a b = fl_add a (fl_neg b)"

text \<open>The sign of a sample that is not \<open>NaN\<close>: \<open>-1\<close>, \<open>0\<close> or \<open>1\<close>.\<close>

fun fl_sgn :: "fl \<Rightarrow> int" where
  "fl_sgn NaN = 0"
| "fl_sgn NInf = - 1"
| "fl_sgn PInf = 1"
| "fl_sgn (Fin a) = (if a < 0 then - 1 else if a = 0 then 0 else 1)"

fun fl_mul :: "fl \<Rightarrow> fl \<Rightarrow> fl" where
  "fl_mul NaN _ = NaN"
| "fl_mul _ NaN = NaN"
| "fl_mul (Fin a) (Fin b) = Fin (a * b)"
| "fl_mul a b =
     (if fl_sgn a * fl_sgn b = 0 then NaN
      else if fl_sgn a * fl_sgn b < 0 then NInf else PInf)"

text \<open>Division by a finite non-zero number \<open>d\<close> (a count, or \<open>2\<close>).\<close>

fun fl_divr :: "fl \<Rightarrow> real \<Rightarrow> fl" where
  "fl_divr NaN _ = NaN"
| "fl_divr (Fin a) d = Fin (a / d)"
| "fl_divr PInf d = (if d < 0 then NInf else PInf)"
| "fl_divr NInf d = (if d < 0 then PInf else NInf)"

fun fl_sqrt :: "fl \<Rightarrow> fl" where
  "fl_sqrt NaN = NaN"
| "fl_sqrt NInf = NaN"
| "fl_sqrt PInf = PInf"
| "fl_sqrt (Fin a) = (if a < 0 then NaN else Fin (sqrt a))"

section \<open>Classification builder\<close>

text \<open>
  \<open>getColor\<close> selects a matplotlib palette by the number of colours asked for and raises
  for more than twenty.  The colours themselves are matplotlib's; the model keeps the
  choice of the palette.
\<close>

datatype cmap = Tab10 | Tab20

definition getColor :: "nat \<Rightarrow> error + cmap" where
  "getColor nb_color =
     (let x = (if 10 < nb_color \<and> nb_color < 21 then Some Tab20 else None);
          x = (if nb_color < 11 then Some Tab10 else x)
      in if nb_color > 20 then Inl NameError
         else case x of Some c \<Rightarrow> Inr c | None \<Rightarrow> Inl NameError)"

text \<open>
  The membership test of class \<open>idx\<close> on one sample: the last class has no upper bound.
\<close>

definition in_range :: "real list \<Rightarrow> nat \<Rightarrow> fl \<Rightarrow> bool" where
  "in_range sets_rad_range idx x =
     (if idx = length sets_rad_range - 1
      then fl_le (Fin (sets_rad_range ! idx)) x
      else fl_le (Fin (sets_rad_range ! idx)) x \<and> fl_lt x (Fin (sets_rad_range ! (idx + 1))))"

text \<open>
  \<open>create_sets\<close>: the first loop builds one boolean grid per boundary, the second loop
  clears in every grid the pixels where the support is \<open>NaN\<close> or equals its nodata value.
  The rendering of the classified image (the \<open>output_descriptor\<close> branch) writes a file
  and does not influence the grids returned.
\<close>

definition create_sets :: "fl list \<Rightarrow> fl \<Rightarrow> real list \<Rightarrow> error + (bool list list \<times> cmap)" where
  "create_sets img_r img_nodata sets_rad_range =
     (case getColor (length sets_rad_range) of
        Inl e \<Rightarrow> Inl e
      | Inr sets_colors \<Rightarrow>
          let output_sets_def =
                map (\<lambda>idx. map (in_range sets_rad_range idx) img_r) [0 ..< length sets_rad_range];
              absent = map (\<lambda>x. isnan x \<or> fl_eq x img_nodata) img_r
          in Inr (map (\<lambda>s. map2 (\<lambda>a b. if a then False else b) absent s) output_sets_def,
                  sets_colors))"

text \<open>
  What \<open>create_sets\<close> returns when it returns, pixel by pixel: a pixel is in class \<open>idx\<close> iff
  its support sample is present and passes the membership test.
\<close>

definition class_grids :: "fl list \<Rightarrow> fl \<Rightarrow> real list \<Rightarrow> bool list list" where
  "class_grids r nd bs =
     map (\<lambda>idx. map (\<lambda>x. \<not> (isnan x \<or> fl_eq x nd) \<and> in_range bs idx x) r) [0 ..< length bs]"

section \<open>Mask composer\<close>

text \<open>
  \<open>np.mean\<close>, \<open>np.std\<close>, \<open>np.sum\<close> on a one-dimensional array.  The mean of an empty array
  is \<open>NaN\<close> (numpy warns and does not raise).
\<close>

definition np_sum :: "fl list \<Rightarrow> fl" where
  "np_sum xs = foldl fl_add (Fin 0) xs"

definition np_mean :: "fl list \<Rightarrow> fl" where
  "np_mean xs = (if xs = [] then NaN else fl_divr (np_sum xs) (real (length xs)))"

definition np_std :: "fl list \<Rightarrow> fl" where
  "np_std xs =
     (let mu = np_mean xs;
          d = map (\<lambda>x. fl_abs (fl_sub x mu)) xs
      in fl_sqrt (np_mean (map (\<lambda>x. fl_mul x x) d)))"

text \<open>\<open>array[np.where(mask == True)]\<close>: the samples selected by a mask of the same shape.\<close>

definition select :: "'a list \<Rightarrow> bool list \<Rightarrow> 'a list" where
  "select xs keep = map fst (filter snd (zip xs keep))"

definition get_nonan_mask :: "fl list \<Rightarrow> fl \<Rightarrow> bool list" where
  "get_nonan_mask array nan_value = map (\<lambda>x. \<not> isnan x \<and> fl_ne x nan_value) array"

definition get_ouliersfree_mask :: "fl list \<Rightarrow> bool list \<Rightarrow> bool list" where
  "get_ouliersfree_mask array no_nan_mask =
     (let array_without_nan = select array no_nan_mask;
          mu = np_mean array_without_nan;
          sigma = np_std array_without_nan
      in map (\<lambda>x. fl_lt (fl_sub mu (fl_mul (Fin 3) sigma)) x
                 \<and> fl_lt x (fl_add mu (fl_mul (Fin 3) sigma))) array)"

text \<open>
  The product of two boolean grids is their pointwise conjunction; numpy raises for grids
  of different shapes (broadcasting a grid to a larger shape does not arise between the
  grids of one run, and is not modelled).
\<close>

definition mask_mul :: "bool list \<Rightarrow> bool list \<Rightarrow> error + bool list" where
  "mask_mul a b = (if length a = length b then Inr (map2 (\<and>) a b) else Inl ValueError)"

text \<open>
  \<open>create_masks\<close>.  The arguments are the difference raster and its nodata value, the
  classification switch, the reference support (samples and nodata value) if there is one,
  the cross-classification switch, the classified reference image if there is one (the alpha
  band stored in its file, as bytes, and the \<open>nodata\<close> list of its descriptor), and the
  outlier switch.  The statements are kept in the order of the source: the outlier mask
  is computed from \<open>masks[0]\<close> before \<open>masks[0]\<close> is multiplied by the support's mask.
\<close>

definition create_masks ::
  "fl list \<Rightarrow> fl \<Rightarrow> bool \<Rightarrow> (fl list \<times> fl) option \<Rightarrow> bool \<Rightarrow> (nat list \<times> nat list) option \<Rightarrow> bool
     \<Rightarrow> error + (bool list list \<times> string list \<times> bool list option)" where
  "create_masks alti_r alti_nodata do_classification ref_support
       do_cross_classification ref_support_classified_desc remove_outliers =
     (let masks0 = get_nonan_mask alti_r alti_nodata;
          no_outliers = (if remove_outliers then Some (get_ouliersfree_mask alti_r masks0) else None);
          standard =
            (if do_classification then
               (case ref_support of
                  None \<Rightarrow> Inl AttributeError
                | Some (support_r, support_nodata) \<Rightarrow>
                    mask_mul masks0 (get_nonan_mask support_r support_nodata))
             else Inr masks0)
      in case standard of
           Inl e \<Rightarrow> Inl e
         | Inr masks0 \<Rightarrow>
             if do_classification \<and> do_cross_classification then
               (case ref_support_classified_desc of
                  None \<Rightarrow> Inl TypeError
                | Some (alpha, nodata) \<Rightarrow>
                    (case nodata of
                       [] \<Rightarrow> Inl IndexError
                     | nd0 # _ \<Rightarrow>
                         let coherent_mask =
                               get_nonan_mask (map (\<lambda>b. Fin (real b)) alpha) (Fin (real nd0))
                         in (case mask_mul masks0 coherent_mask of
                               Inl e \<Rightarrow> Inl e
                             | Inr coherent \<Rightarrow>
                                 (case mask_mul masks0 (map Not coherent_mask) of
                                    Inl e \<Rightarrow> Inl e
                                  | Inr incoherent \<Rightarrow>
                                      Inr ([masks0, coherent, incoherent],
                                           [''standard'', ''coherent-classification'',
                                            ''incoherent-classification''],
                                           no_outliers)))))
             else Inr ([masks0], [''standard''], no_outliers))"

section \<open>Statistics engine\<close>

text \<open>Exceptions propagate: the rest of a computation runs on the value of a step that returned.\<close>

definition e_bind :: "error + 'a \<Rightarrow> ('a \<Rightarrow> error + 'b) \<Rightarrow> error + 'b" where
  "e_bind m f = (case m of Inl e \<Rightarrow> Inl e | Inr x \<Rightarrow> f x)"

text \<open>
  \<open>array[np.where(keep == True)]\<close> for one-dimensional arrays: the samples at the indices
  where \<open>keep\<close> holds, and \<open>IndexError\<close> if \<open>keep\<close> holds at an index beyond the array.
\<close>

definition select_e :: "'a list \<Rightarrow> bool list \<Rightarrow> error + 'a list" where
  "select_e xs keep =
     (if list_ex (\<lambda>b. b) (drop (length xs) keep) then Inl IndexError else Inr (select xs keep))"

text \<open>\<open>np.max\<close> and \<open>np.min\<close> of a non-empty array \<open>x # xs\<close>; a \<open>NaN\<close> among the samples wins.\<close>

definition fl_max2 :: "fl \<Rightarrow> fl \<Rightarrow> fl" where
  "fl_max2 a b = (if isnan a \<or> isnan b then NaN else if fl_le a b then b else a)"

definition fl_min2 :: "fl \<Rightarrow> fl \<Rightarrow> fl" where
  "fl_min2 a b = (if isnan a \<or> isnan b then NaN else if fl_le a b then a else b)"

definition np_max :: "fl \<Rightarrow> fl list \<Rightarrow> fl" where
  "np_max x xs = foldl fl_max2 x xs"

definition np_min :: "fl \<Rightarrow> fl list \<Rightarrow> fl" where
  "np_min x xs = foldl fl_min2 x xs"

text \<open>Sorting samples that are not \<open>NaN\<close>, by insertion.\<close>

fun fl_insort :: "fl \<Rightarrow> fl list \<Rightarrow> fl list" where
  "fl_insort x [] = [x]"
| "fl_insort x (y # ys) = (if fl_le x y then x # y # ys else y # fl_insort x ys)"

definition fl_sort :: "fl list \<Rightarrow> fl list" where
  "fl_sort xs = foldr fl_insort xs []"

text \<open>
  \<open>np.nanmedian\<close>, \<open>np.nanmean\<close> and \<open>np.nanpercentile\<close> drop the \<open>NaN\<close> samples first and
  give \<open>NaN\<close> when nothing is left (numpy warns and does not raise).  The median of an even
  number of samples is the mean of the two middle ones.  The percentile interpolates
  linearly between the two order statistics around the position \<open>q / 100 * (n - 1)\<close>.
\<close>

definition drop_nan :: "fl list \<Rightarrow> fl list" where
  "drop_nan xs = filter (\<lambda>x. \<not> isnan x) xs"

definition np_median :: "fl list \<Rightarrow> fl" where
  "np_median xs =
     (let s = fl_sort xs; n = length xs
      in if n = 0 then NaN
         else if odd n then s ! (n div 2)
         else fl_divr (fl_add (s ! (n div 2 - 1)) (s ! (n div 2))) 2)"

definition np_nanmedian :: "fl list \<Rightarrow> fl" where
  "np_nanmedian xs = np_median (drop_nan xs)"

definition np_nanmean :: "fl list \<Rightarrow> fl" where
  "np_nanmean xs = np_mean (drop_nan xs)"

definition np_percentile :: "fl list \<Rightarrow> real \<Rightarrow> fl" where
  "np_percentile xs q =
     (let s = fl_sort xs; n = length xs;
          pos = q / 100 * real (n - 1);
          below = nat \<lfloor>pos\<rfloor>;
          above = min (below + 1) (n - 1);
          weight_above = pos - real below
      in if n = 0 then NaN
         else fl_add (fl_mul (s ! below) (Fin (1 - weight_above)))
                     (fl_mul (s ! above) (Fin weight_above)))"

definition np_nanpercentile :: "fl list \<Rightarrow> real \<Rightarrow> fl" where
  "np_nanpercentile xs q = np_percentile (drop_nan xs) q"

record stats =
  nbpts :: nat
  max_v :: fl
  min_v :: fl
  mean :: fl
  std :: fl
  rmse :: fl
  median :: fl
  nmad :: fl
  sum_err :: fl
  sum_err_err :: fl

record set_stats = stats +
  set_label :: string
  set_name :: string
  percent :: fl
  p90 :: fl

definition stats_computation :: "fl list \<Rightarrow> stats" where
  "stats_computation array =
     (case array of
        x # xs \<Rightarrow>
          \<lparr> nbpts = length array,
            max_v = np_max x xs,
            min_v = np_min x xs,
            mean = np_mean array,
            std = np_std array,
            rmse = fl_sqrt (np_mean (map (\<lambda>a. fl_mul a a) array)),
            median = np_nanmedian array,
            nmad = fl_mul (Fin 1.4826)
                     (np_nanmedian (map (\<lambda>a. fl_abs (fl_sub a (np_nanmedian array))) array)),
            sum_err = np_sum array,
            sum_err_err = np_sum (map (\<lambda>a. fl_mul a a) array) \<rparr>
      | [] \<Rightarrow>
          \<lparr> nbpts = length array,
            max_v = NaN, min_v = NaN, mean = NaN, std = NaN, rmse = NaN,
            median = NaN, nmad = NaN, sum_err = NaN, sum_err_err = NaN \<rparr>)"

definition nighty_percentile :: "fl list \<Rightarrow> fl" where
  "nighty_percentile array =
     np_nanpercentile (map (\<lambda>a. fl_abs (fl_sub a (np_nanmean array))) array) 90"

text \<open>\<open>100 * float(n) / float(nb_total_points)\<close>: Python raises on a division by zero.\<close>

definition py_percent :: "nat \<Rightarrow> nat \<Rightarrow> error + fl" where
  "py_percent n nb_total_points =
     (if nb_total_points = 0 then Inl ZeroDivisionError
      else Inr (Fin (100 * real n / real nb_total_points)))"

text \<open>\<open>xs[i]\<close> of a Python list, for an index that is not negative.\<close>

definition py_nth :: "'a list \<Rightarrow> nat \<Rightarrow> error + 'a" where
  "py_nth xs i = (if i < length xs then Inr (xs ! i) else Inl IndexError)"

text \<open>
  One record of \<open>get_stats\<close>: the statistics of the samples selected by \<open>sel\<close>, the label
  and the name, the percentage of all pixels, and the 90th percentile over the samples
  selected by \<open>sel90\<close> (the selection without the outlier mask).  \<open>sel\<close>, \<open>lbl\<close>, \<open>nm\<close>
  and \<open>sel90\<close> are evaluated in this order, as the statements of the source are.
\<close>

definition stats_record ::
  "fl list \<Rightarrow> error + bool list \<Rightarrow> error + string \<Rightarrow> error + string \<Rightarrow> error + bool list
     \<Rightarrow> error + set_stats" where
  "stats_record dz_values sel lbl nm sel90 =
     e_bind sel (\<lambda>keep.
     e_bind (select_e dz_values keep) (\<lambda>data.
     e_bind lbl (\<lambda>l.
     e_bind nm (\<lambda>n.
     e_bind (py_percent (nbpts (stats_computation data)) (length dz_values)) (\<lambda>pc.
     e_bind sel90 (\<lambda>keep90.
     e_bind (select_e dz_values keep90) (\<lambda>data90.
       Inr (stats.extend (stats_computation data)
              (set_stats.fields l n pc (nighty_percentile data90))))))))))"

fun stats_of_sets ::
  "fl list \<Rightarrow> bool list \<Rightarrow> bool list \<Rightarrow> bool list list \<Rightarrow> string list \<Rightarrow> string list
     \<Rightarrow> nat list \<Rightarrow> error + set_stats list" where
  "stats_of_sets dz_values to_keep no_out sets sets_labels sets_names [] = Inr []"
| "stats_of_sets dz_values to_keep no_out sets sets_labels sets_names (set_idx # rest) =
     e_bind (stats_record dz_values
               (e_bind (mask_mul (sets ! set_idx) to_keep) (\<lambda>m. mask_mul m no_out))
               (py_nth sets_labels set_idx)
               (py_nth sets_names set_idx)
               (mask_mul (sets ! set_idx) to_keep))
       (\<lambda>r. e_bind (stats_of_sets dz_values to_keep no_out sets sets_labels sets_names rest)
               (\<lambda>rs. Inr (r # rs)))"

text \<open>
  \<open>get_stats\<close>.  A mask that is not given is a grid of ones.  The first record is the one
  of all classes; the records of the classes follow when the sets, their labels and their
  names are all given.
\<close>

definition get_stats ::
  "fl list \<Rightarrow> bool list option \<Rightarrow> bool list option \<Rightarrow> bool list list option
     \<Rightarrow> string list option \<Rightarrow> string list option \<Rightarrow> error + set_stats list" where
  "get_stats dz_values to_keep_mask no_outliers_mask sets sets_labels sets_names =
     (let ones = replicate (length dz_values) True;
          to_keep = (case to_keep_mask of None \<Rightarrow> ones | Some m \<Rightarrow> m);
          no_out = (case no_outliers_mask of None \<Rightarrow> ones | Some m \<Rightarrow> m)
      in e_bind (stats_record dz_values (mask_mul to_keep no_out)
                   (Inr ''all'') (Inr ''All classes considered'') (Inr to_keep))
           (\<lambda>first.
              case (sets, sets_labels, sets_names) of
                (Some ss, Some ls, Some ns) \<Rightarrow>
                  e_bind (stats_of_sets dz_values to_keep no_out ss ls ns [0 ..< length ss])
                    (\<lambda>rs. Inr (first # rs))
              | _ \<Rightarrow> Inr [first]))"

section \<open>Comparison with a baseline\<close>

subsection \<open>Python floats\<close>

text \<open>
  The comparator works on Python floats, which are binary64 numbers, and here the claims
  depend on the rounding: \<open>float(s)\<close> is the binary64 number nearest to the decimal \<open>s\<close>,
  ties to even, and \<open>a - b\<close> is the binary64 number nearest to the difference.  A float is
  again a value of \<open>fl\<close>; \<open>b64_round\<close> rounds a real number to binary64 (53 significant bits,
  exponents from \<open>-1074\<close>, overflow to infinity).  Signed zeros are not distinguished.
\<close>

text \<open>\<open>ilog2 x\<close> is the integer part of the binary logarithm of \<open>x > 0\<close>.\<close>

definition ilog2 :: "real \<Rightarrow> int" where
  "ilog2 x = (if 1 \<le> x then int (floorlog 2 (nat \<lfloor>x\<rfloor>)) - 1
              else - int (floorlog 2 (nat (\<lceil>1 / x\<rceil> - 1))))"

definition pow2 :: "int \<Rightarrow> real" where
  "pow2 e = (if 0 \<le> e then 2 ^ nat e else 1 / 2 ^ nat (- e))"

definition round_half_even :: "real \<Rightarrow> int" where
  "round_half_even x =
     (let f = \<lfloor>x\<rfloor>; d = x - of_int f
      in if d < 1 / 2 then f else if 1 / 2 < d then f + 1 else if even f then f else f + 1)"

definition b64_round :: "real \<Rightarrow> fl" where
  "b64_round x =
     (if x = 0 then Fin 0
      else let a = \<bar>x\<bar>;
               e = max (ilog2 a - 52) (- 1074);
               r = of_int (round_half_even (a / pow2 e)) * pow2 e
           in if 2 ^ 1024 \<le> r then (if x < 0 then NInf else PInf)
              else Fin (if x < 0 then - r else r))"

definition py_sub :: "fl \<Rightarrow> fl \<Rightarrow> fl" where
  "py_sub a b = (case fl_sub a b of Fin d \<Rightarrow> b64_round d | s \<Rightarrow> s)"

subsection \<open>Strings\<close>

text \<open>\<open>s.strip(chars)\<close> and \<open>s.split(sep)\<close> for a separator of one character.\<close>

definition py_strip :: "string \<Rightarrow> string \<Rightarrow> string" where
  "py_strip chars s =
     rev (dropWhile (\<lambda>c. c \<in> set chars) (rev (dropWhile (\<lambda>c. c \<in> set chars) s)))"

fun py_split :: "char \<Rightarrow> string \<Rightarrow> string list" where
  "py_split sep [] = [[]]"
| "py_split sep (c # cs) =
     (if c = sep then [] # py_split sep cs
      else case py_split sep cs of
             x # xs \<Rightarrow> (c # x) # xs
           | [] \<Rightarrow> [[c]])"

text \<open>
  \<open>float(s)\<close> on the decimal forms: optional blanks around, an optional sign, then
  \<open>inf\<close>, \<open>infinity\<close> or \<open>nan\<close> in any case, or digits with an optional point and an
  optional exponent, at least one digit before the exponent.  Anything else is a
  \<open>ValueError\<close> (the underscores that later versions of Python accept between digits
  are not modelled).
\<close>

definition whitespace :: string where
  "whitespace = [CHR '' '', CHR 0x09, CHR 0x0A, CHR 0x0B, CHR 0x0C, CHR 0x0D]"

definition is_digit :: "char \<Rightarrow> bool" where
  "is_digit c = (c \<in> set ''0123456789'')"

definition digit_val :: "char \<Rightarrow> nat" where
  "digit_val c = of_char c - 48"

definition digits_val :: "string \<Rightarrow> nat" where
  "digits_val ds = foldl (\<lambda>n c. 10 * n + digit_val c) 0 ds"

definition to_lower :: "char \<Rightarrow> char" where
  "to_lower c =
     (case map_of (zip ''ABCDEFGHIJKLMNOPQRSTUVWXYZ'' ''abcdefghijklmnopqrstuvwxyz'') c of
        Some l \<Rightarrow> l | None \<Rightarrow> c)"

text \<open>The exponent part: nothing, or \<open>e\<close>, an optional sign and at least one digit.\<close>

definition parse_exponent :: "string \<Rightarrow> int option" where
  "parse_exponent s =
     (case s of
        [] \<Rightarrow> Some 0
      | c # r \<Rightarrow>
          if c = CHR ''e'' \<or> c = CHR ''E'' then
            (let (neg, ds) = (case r of
                                d # r' \<Rightarrow> if d = CHR ''-'' then (True, r')
                                          else if d = CHR ''+'' then (False, r') else (False, r)
                              | [] \<Rightarrow> (False, r))
             in if ds \<noteq> [] \<and> list_all is_digit ds
                then Some (if neg then - int (digits_val ds) else int (digits_val ds))
                else None)
          else None)"

text \<open>A decimal without its sign: the digits as a natural number and the power of ten.\<close>

definition parse_decimal :: "string \<Rightarrow> (nat \<times> int) option" where
  "parse_decimal s =
     (let ip = takeWhile is_digit s;
          r1 = dropWhile is_digit s;
          (fp, r2) = (case r1 of
                        c # r \<Rightarrow> if c = CHR ''.'' then (takeWhile is_digit r, dropWhile is_digit r)
                                 else ([], r1)
                      | [] \<Rightarrow> ([], r1))
      in if ip = [] \<and> fp = [] then None
         else case parse_exponent r2 of
                None \<Rightarrow> None
              | Some ex \<Rightarrow> Some (digits_val (ip @ fp), ex - int (length fp)))"

definition pow10 :: "int \<Rightarrow> real" where
  "pow10 e = (if 0 \<le> e then 10 ^ nat e else 1 / 10 ^ nat (- e))"

definition py_float :: "string \<Rightarrow> error + fl" where
  "py_float s =
     (let t = py_strip whitespace s;
          (neg, u) = (case t of
                        c # r \<Rightarrow> if c = CHR ''-'' then (True, r)
                                 else if c = CHR ''+'' then (False, r) else (False, t)
                      | [] \<Rightarrow> (False, t));
          l = map to_lower u
      in if l = ''inf'' \<or> l = ''infinity'' then Inr (if neg then NInf else PInf)
         else if l = ''nan'' then Inr NaN
         else case parse_decimal u of
                None \<Rightarrow> Inl ValueError
              | Some (m, e) \<Rightarrow>
                  Inr (b64_round ((if neg then - 1 else 1) * real m * pow10 e)))"

subsection \<open>\<open>check_csv\<close>\<close>

record diff =
  csv_file :: string
  class_name :: string
  stat_name :: string
  baseline_val :: fl
  test_val :: fl

text \<open>A list comprehension whose element may raise stops at the first exception.\<close>

fun e_map :: "('a \<Rightarrow> error + 'b) \<Rightarrow> 'a list \<Rightarrow> error + 'b list" where
  "e_map f [] = Inr []"
| "e_map f (x # xs) = e_bind (f x) (\<lambda>y. e_bind (e_map f xs) (\<lambda>ys. Inr (y # ys)))"

definition columns :: "string \<Rightarrow> string list" where
  "columns row = py_split CHR '','' (py_strip [CHR 0x0D, CHR 0x0A] row)"

text \<open>
  The body of the loop of \<open>check_csv\<close> for one pair of rows; \<open>header\<close> is \<open>csv_ref[0]\<close>.
  It gives the difference records that the iteration appends.
\<close>

definition check_row :: "string \<Rightarrow> string \<Rightarrow> fl \<Rightarrow> string \<Rightarrow> string \<Rightarrow> error + diff list" where
  "check_row header file epsilon row_ref row_test =
     (case (columns row_ref, columns row_test) of
        (name_ref # vals_ref, name_test # vals_test) \<Rightarrow>
          if name_ref \<noteq> name_test then Inl ValueError
          else
            e_bind (e_map py_float vals_ref) (\<lambda>f_cols_ref.
            e_bind (e_map py_float vals_test) (\<lambda>f_cols_test.
              let results = map2 (\<lambda>ref test. fl_le (fl_abs (py_sub ref test)) epsilon)
                              f_cols_ref f_cols_test;
                  indices = filter (\<lambda>i. \<not> results ! i) [0 ..< length results]
              in e_map (\<lambda>index.
                     e_bind (py_nth (columns header) (index + 1)) (\<lambda>stat.
                       Inr \<lparr> csv_file = file, class_name = name_ref, stat_name = stat,
                             baseline_val = f_cols_ref ! index,
                             test_val = f_cols_test ! index \<rparr>))
                   indices))
      | _ \<Rightarrow> Inl IndexError)"

fun check_rows :: "string \<Rightarrow> string \<Rightarrow> fl \<Rightarrow> (string \<times> string) list \<Rightarrow> error + diff list" where
  "check_rows header file epsilon [] = Inr []"
| "check_rows header file epsilon ((row_ref, row_test) # rest) =
     e_bind (check_row header file epsilon row_ref row_test) (\<lambda>ds.
     e_bind (check_rows header file epsilon rest) (\<lambda>dss. Inr (ds @ dss)))"

definition check_csv :: "string list \<Rightarrow> string list \<Rightarrow> string \<Rightarrow> fl \<Rightarrow> error + diff list" where
  "check_csv csv_ref csv_test file epsilon =
     (case csv_ref of
        [] \<Rightarrow> Inl IndexError
      | header # rows_ref \<Rightarrow>
          (case csv_test of
             [] \<Rightarrow> Inl IndexError
           | header_test # rows_test \<Rightarrow>
               if header \<noteq> header_test then Inl ValueError
               else check_rows header file epsilon (zip rows_ref rows_test)))"

section \<open>The statistics and histogram steps on shared arrays\<close>

text \<open>
  numpy arrays and Python lists are objects that several names may share, and
  \<open>plot_histograms\<close> assigns into the list of sets it is given.  For what this does to the
  grids of the run, the objects live in a store: an address is an index into the list of
  objects, a new object goes to the end, and a Python list holds the addresses of its
  elements.
\<close>

type_synonym addr = nat

datatype obj = FArr "fl list" | BArr "bool list" | PList "addr list"

type_synonym heap = "obj list"

definition alloc :: "heap \<Rightarrow> obj \<Rightarrow> addr \<times> heap" where
  "alloc h ob = (length h, h @ [ob])"

definition get_farr :: "heap \<Rightarrow> addr \<Rightarrow> error + fl list" where
  "get_farr h a =
     (if a < length h then (case h ! a of FArr xs \<Rightarrow> Inr xs | _ \<Rightarrow> Inl TypeError)
      else Inl TypeError)"

definition get_barr :: "heap \<Rightarrow> addr \<Rightarrow> error + bool list" where
  "get_barr h a =
     (if a < length h then (case h ! a of BArr xs \<Rightarrow> Inr xs | _ \<Rightarrow> Inl TypeError)
      else Inl TypeError)"

definition get_plist :: "heap \<Rightarrow> addr \<Rightarrow> error + addr list" where
  "get_plist h a =
     (if a < length h then (case h ! a of PList xs \<Rightarrow> Inr xs | _ \<Rightarrow> Inl TypeError)
      else Inl TypeError)"

text \<open>An optional mask argument: \<open>None\<close>, or the array at an address.\<close>

definition get_mask_opt :: "heap \<Rightarrow> addr option \<Rightarrow> error + bool list option" where
  "get_mask_opt h a =
     (case a of None \<Rightarrow> Inr None | Some k \<Rightarrow> e_bind (get_barr h k) (\<lambda>m. Inr (Some m)))"

text \<open>
  \<open>get_stats\<close> on the store: it reads the raster, the masks and the sets, and binds its
  products to local names only.
\<close>

definition get_stats_h ::
  "heap \<Rightarrow> addr \<Rightarrow> addr option \<Rightarrow> addr option \<Rightarrow> addr option
     \<Rightarrow> string list option \<Rightarrow> string list option \<Rightarrow> error + set_stats list" where
  "get_stats_h h dz_values to_keep_mask no_outliers_mask sets sets_labels sets_names =
     e_bind (get_farr h dz_values) (\<lambda>dz.
     e_bind (get_mask_opt h to_keep_mask) (\<lambda>keep.
     e_bind (get_mask_opt h no_outliers_mask) (\<lambda>no_out.
     e_bind (case sets of
               None \<Rightarrow> Inr None
             | Some l \<Rightarrow> e_bind (get_plist h l) (\<lambda>as.
                          e_bind (e_map (get_barr h) as) (\<lambda>ss. Inr (Some ss)))) (\<lambda>ss.
       get_stats dz keep no_out ss sets_labels sets_names))))"

text \<open>
  \<open>roundUp(x, y)\<close> with \<open>x\<close> a numpy number and \<open>y\<close> the bin step: numpy divides by zero
  without raising, and \<open>math.ceil\<close> raises on what is not finite.
\<close>

definition roundUp :: "fl \<Rightarrow> real \<Rightarrow> error + real" where
  "roundUp x y =
     (let q = (if y = 0
               then (case x of Fin a \<Rightarrow> if a = 0 then NaN else if 0 < a then PInf else NInf
                             | s \<Rightarrow> s)
               else fl_divr x y)
      in case q of
           Fin v \<Rightarrow> Inr (of_int \<lceil>v\<rceil> * y)
         | NaN \<Rightarrow> Inl ValueError
         | _ \<Rightarrow> Inl OverflowError)"

definition np_nanmin :: "fl list \<Rightarrow> fl" where
  "np_nanmin xs = (case drop_nan xs of [] \<Rightarrow> NaN | y # ys \<Rightarrow> np_min y ys)"

definition np_nanmax :: "fl list \<Rightarrow> fl" where
  "np_nanmax xs = (case drop_nan xs of [] \<Rightarrow> NaN | y # ys \<Rightarrow> np_max y ys)"

text \<open>
  The bound of the bins: \<open>np.nanmin\<close> raises on an empty array.  The bins are written to
  a file and handed to the plotting library.
\<close>

definition bins_bound :: "fl list \<Rightarrow> bool list option \<Rightarrow> real \<Rightarrow> error + real" where
  "bins_bound input_array to_keep_mask bin_step =
     e_bind (case to_keep_mask of None \<Rightarrow> Inr input_array | Some k \<Rightarrow> select_e input_array k)
       (\<lambda>sel. if sel = [] then Inl ValueError
               else roundUp (fl_max2 (fl_abs (np_nanmin sel)) (fl_abs (np_nanmax sel))) bin_step)"

text \<open>
  One iteration of the loop of \<open>plot_histograms\<close>.  With a mask, \<open>sets[set_idx]\<close> is
  assigned the product of the grid and the mask: a new array, and a new value in the slot of
  the list.  The histogram and the Gaussian fit are the plotting library's and scipy's:
  \<open>fit set_idx data\<close> tells whether the fit of this set converges, and a fit that does not
  is the \<open>RuntimeError\<close> the source raises again.  The iteration gives the store, the size
  of set zero, and the label it saved, if any.
\<close>

definition plot_set ::
  "(nat \<Rightarrow> fl list \<Rightarrow> bool) \<Rightarrow> fl list \<Rightarrow> bool list option \<Rightarrow> addr \<Rightarrow> string list
     \<Rightarrow> (real \<times> real \<times> real) list \<Rightarrow> heap \<Rightarrow> nat \<Rightarrow> nat
     \<Rightarrow> heap \<times> (error + nat \<times> string list)" where
  "plot_set fit input_array to_keep_mask sets sets_labels sets_colors h set_zero_size set_idx =
     (case e_bind (get_plist h sets) (\<lambda>ss. e_bind (py_nth ss set_idx) (\<lambda>a. get_barr h a)) of
        Inl e \<Rightarrow> (h, Inl e)
      | Inr grid \<Rightarrow>
          (case (case to_keep_mask of
                   None \<Rightarrow> Inr (h, grid)
                 | Some k \<Rightarrow>
                     e_bind (mask_mul grid k) (\<lambda>product.
                     e_bind (get_plist h sets) (\<lambda>ss.
                       let (a, h1) = alloc h (BArr product)
                       in Inr (h1[sets := PList (ss[set_idx := a])], product)))) of
             Inl e \<Rightarrow> (h, Inl e)
           | Inr (h2, current) \<Rightarrow>
               (h2,
                e_bind (select_e input_array current) (\<lambda>data.
                  if data \<noteq> [] then
                    e_bind (if set_idx \<noteq> 0 \<and> set_zero_size = 0 then Inl ZeroDivisionError
                            else Inr (if set_idx \<noteq> 0 then set_zero_size else length data))
                      (\<lambda>zero_size.
                    e_bind (py_nth sets_labels set_idx) (\<lambda>label.
                    e_bind (py_nth sets_colors set_idx) (\<lambda>color.
                      if fit set_idx data then Inr (zero_size, [label])
                      else Inl RuntimeError)))
                  else Inr (set_zero_size, [])))))"

fun plot_sets ::
  "(nat \<Rightarrow> fl list \<Rightarrow> bool) \<Rightarrow> fl list \<Rightarrow> bool list option \<Rightarrow> addr \<Rightarrow> string list
     \<Rightarrow> (real \<times> real \<times> real) list \<Rightarrow> heap \<Rightarrow> nat \<Rightarrow> nat list
     \<Rightarrow> heap \<times> (error + string list)" where
  "plot_sets fit input_array to_keep_mask sets sets_labels sets_colors h set_zero_size [] =
     (h, Inr [])"
| "plot_sets fit input_array to_keep_mask sets sets_labels sets_colors h set_zero_size
       (set_idx # rest) =
     (case plot_set fit input_array to_keep_mask sets sets_labels sets_colors h
             set_zero_size set_idx of
        (h1, Inl e) \<Rightarrow> (h1, Inl e)
      | (h1, Inr (zero_size, saved)) \<Rightarrow>
          (case plot_sets fit input_array to_keep_mask sets sets_labels sets_colors h1
                  zero_size rest of
             (h2, Inl e) \<Rightarrow> (h2, Inl e)
           | (h2, Inr others) \<Rightarrow> (h2, Inr (saved @ others))))"

text \<open>
  \<open>plot_histograms\<close>: the bound of the bins, then the loop over the sets when the sets,
  the labels and the colours are all given.  It gives the store and the labels saved.
\<close>

definition plot_histograms ::
  "(nat \<Rightarrow> fl list \<Rightarrow> bool) \<Rightarrow> heap \<Rightarrow> addr \<Rightarrow> real \<Rightarrow> addr option \<Rightarrow> addr option
     \<Rightarrow> string list option \<Rightarrow> (real \<times> real \<times> real) list option
     \<Rightarrow> heap \<times> (error + string list)" where
  "plot_histograms fit h input_array bin_step to_keep_mask sets sets_labels sets_colors =
     (case e_bind (get_farr h input_array) (\<lambda>input.
           e_bind (get_mask_opt h to_keep_mask) (\<lambda>keep.
           e_bind (bins_bound input keep bin_step) (\<lambda>bound. Inr (input, keep)))) of
        Inl e \<Rightarrow> (h, Inl e)
      | Inr (input, keep) \<Rightarrow>
          (case (sets, sets_labels, sets_colors) of
             (Some l, Some labels, Some colors) \<Rightarrow>
               (case get_plist h l of
                  Inl e \<Rightarrow> (h, Inl e)
                | Inr ss \<Rightarrow> plot_sets fit input keep l labels colors h 0 [0 ..< length ss])
           | _ \<Rightarrow> (h, Inr [])))"

text \<open>
  The body of the loop over the modes in \<open>alti_diff_stats\<close>, for the mode at address
  \<open>to_keep\<close>: the statistics, then the histograms on the product of the mode's mask and the
  outlier mask and on a new list, the grid of ones followed by the class grids.  Without a
  classification \<open>ref_sets_def\<close> is \<open>None\<close>, and adding it to a list raises \<open>TypeError\<close>.
  It gives the store and what goes to \<open>save_results\<close>, which writes the records to files
  and sees no grid.
\<close>

definition mode_step ::
  "(nat \<Rightarrow> fl list \<Rightarrow> bool) \<Rightarrow> addr \<Rightarrow> real \<Rightarrow> addr option \<Rightarrow> addr option
     \<Rightarrow> string list option \<Rightarrow> string list option \<Rightarrow> (real \<times> real \<times> real) list
     \<Rightarrow> heap \<Rightarrow> addr \<Rightarrow> heap \<times> (error + set_stats list \<times> string list)" where
  "mode_step fit alti_map bin_step no_outliers_mask ref_sets_def sets_labels sets_names
       sets_color h to_keep =
     (case get_stats_h h alti_map (Some to_keep) no_outliers_mask ref_sets_def
             sets_labels sets_names of
        Inl e \<Rightarrow> (h, Inl e)
      | Inr mode_stats \<Rightarrow>
          (case e_bind (get_barr h to_keep) (\<lambda>k.
                e_bind (case no_outliers_mask of
                          None \<Rightarrow> Inl TypeError
                        | Some a \<Rightarrow> get_barr h a) (\<lambda>no_out.
                e_bind (mask_mul k no_out) (\<lambda>keep.
                e_bind (get_farr h alti_map) (\<lambda>alti.
                e_bind (case ref_sets_def of
                          None \<Rightarrow> Inl TypeError
                        | Some l \<Rightarrow> get_plist h l) (\<lambda>ss.
                e_bind (case sets_labels of
                          None \<Rightarrow> Inl TypeError
                        | Some ls \<Rightarrow> Inr ls) (\<lambda>ls.
                  Inr (keep, alti, ss, ls))))))) of
             Inl e \<Rightarrow> (h, Inl e)
           | Inr (keep, alti, ss, ls) \<Rightarrow>
               let (a_keep, h1) = alloc h (BArr keep);
                   (a_ones, h2) = alloc h1 (BArr (replicate (length alti) True));
                   (a_sets, h3) = alloc h2 (PList (a_ones # ss))
               in (case plot_histograms fit h3 alti_map bin_step (Some a_keep) (Some a_sets)
                          (Some (''all'' # ls)) (Some ((0, 0, 0) # sets_color)) of
                     (h4, Inl e) \<Rightarrow> (h4, Inl e)
                   | (h4, Inr labels_saved) \<Rightarrow> (h4, Inr (mode_stats, labels_saved)))))"

text \<open>The loop over the modes: an exception ends it and leaves the store as it is then.\<close>

fun modes_loop ::
  "(nat \<Rightarrow> fl list \<Rightarrow> bool) \<Rightarrow> addr \<Rightarrow> real \<Rightarrow> addr option \<Rightarrow> addr option
     \<Rightarrow> string list option \<Rightarrow> string list option \<Rightarrow> (real \<times> real \<times> real) list
     \<Rightarrow> heap \<Rightarrow> addr list \<Rightarrow> heap \<times> (error + (set_stats list \<times> string list) list)" where
  "modes_loop fit alti_map bin_step no_outliers_mask ref_sets_def sets_labels sets_names
       sets_color h [] = (h, Inr [])"
| "modes_loop fit alti_map bin_step no_outliers_mask ref_sets_def sets_labels sets_names
       sets_color h (to_keep # rest) =
     (case mode_step fit alti_map bin_step no_outliers_mask ref_sets_def sets_labels
             sets_names sets_color h to_keep of
        (h1, Inl e) \<Rightarrow> (h1, Inl e)
      | (h1, Inr r) \<Rightarrow>
          (case modes_loop fit alti_map bin_step no_outliers_mask ref_sets_def sets_labels
                  sets_names sets_color h1 rest of
             (h2, Inl e) \<Rightarrow> (h2, Inl e)
           | (h2, Inr rs) \<Rightarrow> (h2, Inr (r # rs))))"

section \<open>The median and the NMAD as the specification words them\<close>



section \<open>The scenario of a constant difference raster\<close>

text \<open>
  A difference raster of four rows and four columns, all zeros but one pixel of the border
  that holds the nodata value \<open>-9999\<close>, and the grid that is true everywhere but there.
\<close>

definition scenario_diff :: "fl list" where
  "scenario_diff =
     [Fin 0, Fin 0, Fin 0, Fin (- 9999),
      Fin 0, Fin 0, Fin 0, Fin 0,
      Fin 0, Fin 0, Fin 0, Fin 0,
      Fin 0, Fin 0, Fin 0, Fin 0]"

definition scenario_mask :: "bool list" where
  "scenario_mask =
     [True, True, True, False,
      True, True, True, True,
      True, True, True, True,
      True, True, True, True]"

section \<open>The record of an empty population\<close>

text \<open>
  A record without points carries the empty sentinel: zero percent, and \<open>NaN\<close> for every
  statistic that \<open>stats_computation\<close> gives besides the count.
\<close>

definition empty_sentinel :: "set_stats \<Rightarrow> bool" where
  "empty_sentinel r =
     (nbpts r = 0 \<longrightarrow>
        percent r = Fin 0 \<and> max_v r = NaN \<and> min_v r = NaN \<and> mean r = NaN \<and> std r = NaN
        \<and> rmse r = NaN \<and> median r = NaN \<and> nmad r = NaN \<and> sum_err r = NaN
        \<and> sum_err_err r = NaN)"

section \<open>What the comparator reports\<close>

text \<open>
  A row that splits into the class name \<open>name\<close> and numeric columns that \<open>float\<close> reads
  as \<open>fs\<close>.
\<close>

definition parsed_row :: "string \<Rightarrow> string \<Rightarrow> fl list \<Rightarrow> bool" where
  "parsed_row row name fs =
     (case columns row of
        [] \<Rightarrow> False
      | n # vals \<Rightarrow> n = name \<and> e_map py_float vals = Inr fs)"

text \<open>
  The difference records of one pair of rows, for comparison with \<open>check_csv\<close>: one record,
  in the order of the columns, for every numeric column that both rows have and whose two
  floats fail the test \<open>abs(ref - test) <= epsilon\<close>; the name of the statistic is the
  column of the header one place further, after the class name.
\<close>

definition row_differences ::
  "string \<Rightarrow> string \<Rightarrow> fl \<Rightarrow> string \<Rightarrow> fl list \<Rightarrow> fl list \<Rightarrow> diff list" where
  "row_differences header file epsilon name f_ref f_test =
     map (\<lambda>i. \<lparr> csv_file = file, class_name = name, stat_name = columns header ! (i + 1),
                baseline_val = f_ref ! i, test_val = f_test ! i \<rparr>)
       (filter (\<lambda>i. \<not> fl_le (fl_abs (py_sub (f_ref ! i) (f_test ! i))) epsilon)
          [0 ..< min (length f_ref) (length f_test)])"

text \<open>
  The lines of the comparator scenario, as \<open>readlines\<close> gives them, and the float that
  \<open>1.e-15\<close> denotes.
\<close>

definition header_line :: string where
  "header_line = ''Set Name,Mean Error,Error std'' @ [CHR 0x0A]"

definition baseline_line :: string where
  "baseline_line = ''A,1.0,2.0'' @ [CHR 0x0A]"

definition test_line :: string where
  "test_line = ''A,1.0,2.0000000000000002'' @ [CHR 0x0A]"

definition test_line_next :: string where
  "test_line_next = ''A,1.0,2.0000000000000004'' @ [CHR 0x0A]"

definition epsilon_default :: fl where
  "epsilon_default = Fin (5070602400912918 / 2 ^ 102)"

section \<open>Objects that a step leaves as they were\<close>

text \<open>
  \<open>kept h h'\<close>: every object of the store \<open>h\<close> is in \<open>h'\<close> at its address, with its value.
  \<open>kept_but l h h'\<close>: the same for every object but the one at the address \<open>l\<close>.
\<close>

definition kept :: "heap \<Rightarrow> heap \<Rightarrow> bool" where
  "kept h h' = (length h \<le> length h' \<and> (\<forall>a < length h. h' ! a = h ! a))"

definition kept_but :: "addr \<Rightarrow> heap \<Rightarrow> heap \<Rightarrow> bool" where
  "kept_but l h h' = (length h \<le> length h' \<and> (\<forall>a < length h. a \<noteq> l \<longrightarrow> h' ! a = h ! a))"

text \<open>
  A store for the examples: the difference raster at address 0, the mask of a mode at 1,
  the outlier mask at 2, two class grids at 3 and 4, and the list of the class grids at 5.
\<close>

definition example_heap :: heap where
  "example_heap =
     [FArr [Fin 1, Fin 3], BArr [True, True], BArr [True, True],
      BArr [True, False], BArr [False, True], PList [3, 4]]"

section \<open>Properties of the classification builder\<close>

lemma getColor_ok: "n \<le> 20 \<Longrightarrow> getColor n = Inr (if n < 11 then Tab10 else Tab20)"
  by (auto simp: getColor_def Let_def)

lemma getColor_raises: "20 < n \<Longrightarrow> getColor n = Inl NameError"
  by (auto simp: getColor_def Let_def)

lemma create_sets_ok:
  "length bs \<le> 20 \<Longrightarrow>
   create_sets r nd bs = Inr (class_grids r nd bs, if length bs < 11 then Tab10 else Tab20)"
  unfolding create_sets_def class_grids_def
  by (auto simp: getColor_ok Let_def intro!: nth_equalityI split: if_splits)

lemma class_grids_nth:
  "i < length bs \<Longrightarrow> p < length r \<Longrightarrow>
   class_grids r nd bs ! i ! p = (\<not> (isnan (r ! p) \<or> fl_eq (r ! p) nd) \<and> in_range bs i (r ! p))"
  by (simp add: class_grids_def)

lemma class_grids_length: "length (class_grids r nd bs) = length bs"
  by (simp add: class_grids_def)

lemma class_grids_shape: "s \<in> set (class_grids r nd bs) \<Longrightarrow> length s = length r"
  by (auto simp: class_grids_def)

lemma in_range_lower: "in_range bs i x \<Longrightarrow> fl_le (Fin (bs ! i)) x"
  by (auto simp: in_range_def split: if_splits)

lemma in_range_upper: "in_range bs i x \<Longrightarrow> Suc i < length bs \<Longrightarrow> fl_lt x (Fin (bs ! Suc i))"
  by (auto simp: in_range_def split: if_splits)

lemma fl_le_lt_Fin: "fl_le (Fin a) x \<Longrightarrow> fl_lt x (Fin b) \<Longrightarrow> a < b"
  by (cases x) auto

lemma in_range_less:
  assumes "sorted_wrt (<) bs" "i < j" "j < length bs" "in_range bs i x" "in_range bs j x"
  shows False
proof -
  have "Suc i < length bs" using assms by simp
  then have up: "fl_lt x (Fin (bs ! Suc i))" using assms in_range_upper by blast
  have lo: "fl_le (Fin (bs ! j)) x" using assms in_range_lower by blast
  have "bs ! j < bs ! Suc i" using fl_le_lt_Fin [OF lo up] .
  moreover have "bs ! Suc i \<le> bs ! j"
  proof (cases "Suc i = j")
    case True then show ?thesis by simp
  next
    case False
    then have "Suc i < j" using assms by simp
    then show ?thesis using assms sorted_wrt_nth_less [of "(<)" bs "Suc i" j] by simp
  qed
  ultimately show False by simp
qed

lemma in_range_disjoint:
  assumes "sorted_wrt (<) bs" "i < length bs" "j < length bs" "in_range bs i x" "in_range bs j x"
  shows "i = j"
  using assms in_range_less [of bs i j x] in_range_less [of bs j i x]
  by (meson linorder_neqE_nat)

lemma in_range_Fin:
  "i < length bs \<Longrightarrow> in_range bs i (Fin v) =
     (if i = length bs - 1 then bs ! i \<le> v else bs ! i \<le> v \<and> v < bs ! (i + 1))"
  by (simp add: in_range_def)

lemma in_range_cover:
  assumes "bs \<noteq> []" "bs ! 0 \<le> v"
  shows "\<exists>i < length bs. in_range bs i (Fin v)"
proof -
  define S where "S = {i. i < length bs \<and> bs ! i \<le> v}"
  have fin: "finite S" unfolding S_def by simp
  have ne: "S \<noteq> {}" using assms unfolding S_def by auto
  define m where "m = Max S"
  have mS: "m \<in> S" unfolding m_def using fin ne by (rule Max_in)
  then have m1: "m < length bs" and m2: "bs ! m \<le> v" unfolding S_def by auto
  have "in_range bs m (Fin v)"
  proof (cases "m = length bs - 1")
    case True then show ?thesis using m1 m2 by (simp add: in_range_Fin)
  next
    case False
    then have sm: "Suc m < length bs" using m1 by simp
    have "Suc m \<notin> S"
    proof
      assume "Suc m \<in> S"
      then have "Suc m \<le> m" unfolding m_def using fin by simp
      then show False by simp
    qed
    then have "v < bs ! Suc m" using sm unfolding S_def by auto
    then show ?thesis using m1 m2 False by (simp add: in_range_Fin)
  qed
  then show ?thesis using m1 by blast
qed

lemma in_range_below:
  assumes "sorted_wrt (<) bs" "i < length bs" "in_range bs i (Fin v)"
  shows "bs ! 0 \<le> v"
proof -
  have "bs ! i \<le> v" using in_range_lower [OF assms(3)] by simp
  moreover have "bs ! 0 \<le> bs ! i"
  proof (cases "i = 0")
    case True then show ?thesis by simp
  next
    case False
    then show ?thesis using assms sorted_wrt_nth_less [of "(<)" bs 0 i] by simp
  qed
  ultimately show ?thesis by simp
qed

lemma present_Fin: "r ! p = Fin v \<Longrightarrow> fl_ne (r ! p) nd \<Longrightarrow> \<not> (isnan (r ! p) \<or> fl_eq (r ! p) nd)"
  by (simp add: fl_ne_def)

text \<open>
  Claim C2, as the code has it.  For a strictly increasing list of at most twenty
  boundaries and a support raster, \<open>create_sets\<close> returns one boolean grid per boundary,
  each of the size of the raster; at every pixel the grids are pairwise disjoint; and a pixel whose support
  sample is finite and is not the nodata value lies in exactly one class if its value is at
  least the first boundary, and in no class otherwise.
\<close>

theorem create_sets_partition:
  assumes "sorted_wrt (<) bs" and "length bs \<le> 20" and "r \<noteq> []"
  shows "\<exists>sets c. create_sets r nd bs = Inr (sets, c)
           \<and> length sets = length bs
           \<and> (\<forall>s \<in> set sets. length s = length r)
           \<and> (\<forall>p < length r. \<forall>i < length bs. \<forall>j < length bs.
                 sets ! i ! p \<longrightarrow> sets ! j ! p \<longrightarrow> i = j)
           \<and> (\<forall>p < length r. \<forall>v. r ! p = Fin v \<longrightarrow> fl_ne (r ! p) nd \<longrightarrow>
                 ((\<exists>!i. i < length bs \<and> sets ! i ! p) \<longleftrightarrow> bs \<noteq> [] \<and> bs ! 0 \<le> v))"
proof -
  let ?g = "class_grids r nd bs"
  have disj: "i = j" if "p < length r" "i < length bs" "j < length bs" "?g ! i ! p" "?g ! j ! p"
    for p i j
    using that assms(1) in_range_disjoint [of bs i j "r ! p"] by (simp add: class_grids_nth)
  have cover: "(\<exists>!i. i < length bs \<and> ?g ! i ! p) \<longleftrightarrow> bs \<noteq> [] \<and> bs ! 0 \<le> v"
    if p: "p < length r" and v: "r ! p = Fin v" and nd: "fl_ne (r ! p) nd" for p v
  proof
    assume "\<exists>!i. i < length bs \<and> ?g ! i ! p"
    then obtain i where i: "i < length bs" "?g ! i ! p" by blast
    then have "in_range bs i (Fin v)" using p v by (simp add: class_grids_nth)
    then have "bs ! 0 \<le> v" using in_range_below [OF assms(1) i(1)] by simp
    moreover have "bs \<noteq> []" using i by auto
    ultimately show "bs \<noteq> [] \<and> bs ! 0 \<le> v" by simp
  next
    assume "bs \<noteq> [] \<and> bs ! 0 \<le> v"
    then obtain i where i: "i < length bs" "in_range bs i (Fin v)"
      using in_range_cover by blast
    have "?g ! i ! p" using i p v present_Fin [OF v nd] by (simp add: class_grids_nth)
    then show "\<exists>!i. i < length bs \<and> ?g ! i ! p"
      using i(1) disj [OF p] by blast
  qed
  show ?thesis
    using create_sets_ok [OF assms(2), of r nd] class_grids_length [of r nd bs]
      class_grids_shape [of _ r nd bs] disj cover
    by (intro exI [of _ ?g] exI [of _ "if length bs < 11 then Tab10 else Tab20"]) blast
qed

text \<open>
  Claim C6.  The intervals are closed below and open above, and the last one is unbounded:
  a finite support sample \<open>v\<close> that is not the nodata value is in class \<open>i\<close> iff
  \<open>b\<^sub>i \<le> v < b\<^sub>i\<^sub>+\<^sub>1\<close>, and in the last class iff the last boundary is at most \<open>v\<close>.
\<close>

theorem create_sets_membership:
  assumes "length bs \<le> 20" and "i < length bs" and "p < length r"
    and "r ! p = Fin v" and "fl_ne (r ! p) nd"
  shows "\<exists>sets c. create_sets r nd bs = Inr (sets, c)
           \<and> (sets ! i ! p \<longleftrightarrow>
                 (if i = length bs - 1 then bs ! i \<le> v else bs ! i \<le> v \<and> v < bs ! (i + 1)))"
  using create_sets_ok [OF assms(1), of r nd] assms(2,3)
    present_Fin [OF assms(4,5)] assms(4)
  by (simp add: class_grids_nth in_range_Fin)


text \<open>The boundaries \<open>[0, 10, 25]\<close> on a raster of four samples, one of them absent.\<close>

theorem create_sets_partition_witness:
  "sorted_wrt (<) [0, 10, 25 :: real] \<and> length [0, 10, 25 :: real] \<le> 20
   \<and> (\<exists>sets c. create_sets [Fin 5, Fin 10, Fin 30, NaN] (Fin (- 32768)) [0, 10, 25] = Inr (sets, c)
           \<and> length sets = length [0, 10, 25 :: real]
           \<and> (\<forall>s \<in> set sets. length s = length [Fin 5, Fin 10, Fin 30, NaN])
           \<and> (\<forall>p < length [Fin 5, Fin 10, Fin 30, NaN].
                 \<forall>i < length [0, 10, 25 :: real]. \<forall>j < length [0, 10, 25 :: real].
                 sets ! i ! p \<longrightarrow> sets ! j ! p \<longrightarrow> i = j)
           \<and> (\<forall>p < length [Fin 5, Fin 10, Fin 30, NaN]. \<forall>v.
                 [Fin 5, Fin 10, Fin 30, NaN] ! p = Fin v \<longrightarrow>
                 fl_ne ([Fin 5, Fin 10, Fin 30, NaN] ! p) (Fin (- 32768)) \<longrightarrow>
                 ((\<exists>!i. i < length [0, 10, 25 :: real] \<and> sets ! i ! p)
                    \<longleftrightarrow> [0, 10, 25 :: real] \<noteq> [] \<and> [0, 10, 25 :: real] ! 0 \<le> v)))"
proof -
  have h1: "sorted_wrt (<) [0, 10, 25 :: real]" by simp
  have h2: "length [0, 10, 25 :: real] \<le> 20" by simp
  have h3: "[Fin 5, Fin 10, Fin 30, NaN] \<noteq> []" by simp
  show ?thesis
    by (rule conjI [OF h1 conjI [OF h2 create_sets_partition [OF h1 h2 h3]]])
qed

text \<open>
  A finite sample below the first boundary is in no class, so the classes do not cover
  every finite sample that is not nodata; and with twenty-one boundaries \<open>create_sets\<close>
  raises.
\<close>

theorem create_sets_partition_counterexample:
  "sorted_wrt (<) [0, 10, 25 :: real]
   \<and> isfinite (Fin (- 1)) \<and> fl_ne (Fin (- 1)) (Fin (- 32768))
   \<and> create_sets [Fin (- 1)] (Fin (- 32768)) [0, 10, 25]
       = Inr ([[False], [False], [False]], Tab10)
   \<and> create_sets [Fin 0] (Fin (- 32768)) (map real [0 ..< 21]) = Inl NameError"
  by (simp add: create_sets_def getColor_def in_range_def fl_eq_def fl_ne_def upt_rec)

text \<open>With the boundaries \<open>[0, 10, 25]\<close>, 10 is in the second class and 25 in the third.\<close>

lemma create_sets_boundary_values:
  "create_sets [Fin 10, Fin 25] (Fin (- 32768)) [0, 10, 25]
     = Inr ([[False, False], [True, False], [False, True]], Tab10)"
  by (simp add: create_sets_def getColor_def in_range_def fl_eq_def upt_rec)

theorem create_sets_membership_witness:
  "length [0, 10, 25 :: real] \<le> 20 \<and> (1 :: nat) < length [0, 10, 25 :: real]
   \<and> (0 :: nat) < length [Fin 10, Fin 25]
   \<and> [Fin 10, Fin 25] ! 0 = Fin 10 \<and> fl_ne ([Fin 10, Fin 25] ! 0) (Fin (- 32768))
   \<and> (\<exists>sets c. create_sets [Fin 10, Fin 25] (Fin (- 32768)) [0, 10, 25] = Inr (sets, c)
         \<and> sets ! 1 ! 0)
   \<and> (\<exists>sets c. create_sets [Fin 10, Fin 25] (Fin (- 32768)) [0, 10, 25] = Inr (sets, c)
         \<and> sets ! 2 ! 1)"
proof -
  have h1: "length [0, 10, 25 :: real] \<le> 20" by simp
  have h2: "(1 :: nat) < length [0, 10, 25 :: real]" by simp
  have h3: "(0 :: nat) < length [Fin 10, Fin 25]" by simp
  have h4: "[Fin 10, Fin 25] ! 0 = Fin 10" by simp
  have h5: "fl_ne ([Fin 10, Fin 25] ! 0) (Fin (- 32768))" by (simp add: fl_ne_def fl_eq_def)
  have g2: "(2 :: nat) < length [0, 10, 25 :: real]" by simp
  have g3: "(1 :: nat) < length [Fin 10, Fin 25]" by simp
  have g4: "[Fin 10, Fin 25] ! 1 = Fin 25" by simp
  have g5: "fl_ne ([Fin 10, Fin 25] ! 1) (Fin (- 32768))" by (simp add: fl_ne_def fl_eq_def)
  show ?thesis
    using h1 h2 h3 h4 h5 create_sets_membership [OF h1 h2 h3 h4 h5]
      create_sets_membership [OF h1 g2 g3 g4 g5]
    by simp
qed

section \<open>Properties of the mask composer\<close>


lemma get_nonan_mask_length: "length (get_nonan_mask xs nd) = length xs"
  by (simp add: get_nonan_mask_def)

lemma get_nonan_mask_nth:
  "p < length xs \<Longrightarrow> get_nonan_mask xs nd ! p = (\<not> isnan (xs ! p) \<and> fl_ne (xs ! p) nd)"
  by (simp add: get_nonan_mask_def)

lemma mask_mul_Inr:
  "mask_mul a b = Inr m \<Longrightarrow>
   length a = length b \<and> length m = length a \<and> (\<forall>p < length a. m ! p = (a ! p \<and> b ! p))"
  by (auto simp: mask_mul_def split: if_splits)




lemma create_masks_standard_nth:
  assumes "create_masks alti nd dc support dx desc ro = Inr (masks, modes, no_out)"
  shows "masks \<noteq> [] \<and> length (masks ! 0) = length alti
         \<and> (\<forall>p < length alti. masks ! 0 ! p =
               (\<not> isnan (alti ! p) \<and> fl_ne (alti ! p) nd
                \<and> (dc \<longrightarrow> (\<exists>sr sn. support = Some (sr, sn)
                                 \<and> \<not> isnan (sr ! p) \<and> fl_ne (sr ! p) sn))))"
  using assms unfolding create_masks_def Let_def
  by (auto split: if_splits option.splits sum.splits list.splits prod.splits
      dest!: mask_mul_Inr simp: get_nonan_mask_length get_nonan_mask_nth)


lemmas mask_eval = create_masks_def get_nonan_mask_def get_ouliersfree_mask_def mask_mul_def
  select_def np_mean_def np_std_def np_sum_def fl_sub_def fl_ne_def fl_eq_def






lemmas stats_eval = get_stats_def stats_record_def stats_computation_def e_bind_def
  select_e_def py_percent_def nighty_percentile_def np_nanpercentile_def
  np_percentile_def np_nanmean_def np_nanmedian_def np_median_def
  np_max_def np_min_def fl_max2_def fl_min2_def fl_sort_def drop_nan_def
  stats.extend_def set_stats.fields_def

text \<open>
  Claim C4, as the code has it.  The standard mask is true exactly at the pixels whose
  difference value is not \<open>NaN\<close> and is not the nodata value and, with a classification,
  whose support value is not \<open>NaN\<close> and is not the support's nodata value.  On the constant
  raster of the scenario, without classification, it holds at 15 pixels, and the first
  record of \<open>get_stats\<close> for this mask, without an outlier mask, has count 15, mean, deviation,
  RMSE, median and NMAD zero, and 93.75 percent.
\<close>

theorem standard_mask_valid_pixels:
  "(create_masks alti nd dc support dx desc ro = Inr (masks, modes, no_out) \<longrightarrow>
      masks \<noteq> [] \<and> length (masks ! 0) = length alti
      \<and> (\<forall>p < length alti. masks ! 0 ! p =
            (\<not> isnan (alti ! p) \<and> fl_ne (alti ! p) nd
             \<and> (dc \<longrightarrow> (\<exists>sr sn. support = Some (sr, sn)
                              \<and> \<not> isnan (sr ! p) \<and> fl_ne (sr ! p) sn)))))
   \<and> create_masks scenario_diff (Fin (- 9999)) False None False None False
       = Inr ([scenario_mask], [''standard''], None)
   \<and> length (filter (\<lambda>b. b) scenario_mask) = 15
   \<and> get_stats scenario_diff (Some scenario_mask) None None None None
       = Inr [\<lparr> nbpts = 15, max_v = Fin 0, min_v = Fin 0, mean = Fin 0, std = Fin 0,
                rmse = Fin 0, median = Fin 0, nmad = Fin 0, sum_err = Fin 0,
                sum_err_err = Fin 0, set_label = ''all'',
                set_name = ''All classes considered'', percent = Fin 93.75, p90 = Fin 0 \<rparr>]"
proof (intro conjI impI)
  assume "create_masks alti nd dc support dx desc ro = Inr (masks, modes, no_out)"
  from create_masks_standard_nth [OF this]
  show "masks \<noteq> []" and "length (masks ! 0) = length alti"
    and "\<forall>p < length alti. masks ! 0 ! p =
            (\<not> isnan (alti ! p) \<and> fl_ne (alti ! p) nd
             \<and> (dc \<longrightarrow> (\<exists>sr sn. support = Some (sr, sn)
                              \<and> \<not> isnan (sr ! p) \<and> fl_ne (sr ! p) sn)))"
    by blast+
next
  show "create_masks scenario_diff (Fin (- 9999)) False None False None False
          = Inr ([scenario_mask], [''standard''], None)"
    by (simp add: mask_eval scenario_diff_def scenario_mask_def)
next
  show "length (filter (\<lambda>b. b) scenario_mask) = 15"
    by (simp add: scenario_mask_def)
next
  show "get_stats scenario_diff (Some scenario_mask) None None None None
       = Inr [\<lparr> nbpts = 15, max_v = Fin 0, min_v = Fin 0, mean = Fin 0, std = Fin 0,
                rmse = Fin 0, median = Fin 0, nmad = Fin 0, sum_err = Fin 0,
                sum_err_err = Fin 0, set_label = ''all'',
                set_name = ''All classes considered'', percent = Fin 93.75, p90 = Fin 0 \<rparr>]"
    by (simp add: mask_eval stats_eval scenario_diff_def scenario_mask_def)
qed

lemma standard_mask_example:
  "create_masks [Fin 1, NaN, Fin (- 9999), PInf] (Fin (- 9999)) True
     (Some ([Fin 5, Fin 5, Fin 5, Fin (- 32768)], Fin (- 32768))) False None False
   = Inr ([[True, False, False, False]], [''standard''], None)"
  by (simp add: mask_eval)

theorem standard_mask_valid_pixels_witness:
  "create_masks [Fin 1, NaN, Fin (- 9999), PInf] (Fin (- 9999)) True
     (Some ([Fin 5, Fin 5, Fin 5, Fin (- 32768)], Fin (- 32768))) False None False
   = Inr ([[True, False, False, False]], [''standard''], None)
   \<and> length ([[True, False, False, False]] ! 0) = length [Fin 1, NaN, Fin (- 9999), PInf]
   \<and> [[True, False, False, False]] ! 0 ! 3 =
         (\<not> isnan ([Fin 1, NaN, Fin (- 9999), PInf] ! 3)
          \<and> fl_ne ([Fin 1, NaN, Fin (- 9999), PInf] ! 3) (Fin (- 9999))
          \<and> (\<exists>sr sn. Some ([Fin 5, Fin 5, Fin 5, Fin (- 32768)], Fin (- 32768)) = Some (sr, sn)
                \<and> \<not> isnan (sr ! 3) \<and> fl_ne (sr ! 3) sn))"
proof -
  have "(3 :: nat) < length [Fin 1, NaN, Fin (- 9999), PInf]" by simp
  then show ?thesis
    using standard_mask_example
      standard_mask_valid_pixels [of "[Fin 1, NaN, Fin (- 9999), PInf]" "Fin (- 9999)" True
        "Some ([Fin 5, Fin 5, Fin 5, Fin (- 32768)], Fin (- 32768))" False None False
        "[[True, False, False, False]]" "[''standard'']" None]
    by blast
qed

text \<open>
  An infinite difference value is not \<open>NaN\<close> and is not the nodata value: the standard mask
  holds there, at a value that is not finite.
\<close>

theorem standard_mask_counterexample:
  "\<not> isfinite PInf
   \<and> create_masks [PInf] (Fin (- 9999)) False None False None False
       = Inr ([[True]], [''standard''], None)"
  by (simp add: mask_eval)

text \<open>
  In the scenario the deviation is zero, so no value lies strictly between the outlier
  bounds: with the outlier mask that \<open>create_masks\<close> computes, the first record is empty.
\<close>

lemma scenario_with_outlier_mask:
  "create_masks scenario_diff (Fin (- 9999)) False None False None True
     = Inr ([scenario_mask], [''standard''],
        Some [False, False, False, False, False, False, False, False,
          False, False, False, False, False, False, False, False])
   \<and> map_sum id (map nbpts)
        (get_stats scenario_diff (Some scenario_mask)
           (Some [False, False, False, False, False, False, False, False,
          False, False, False, False, False, False, False, False])
           None None None) = Inr [0]"
  by (simp add: mask_eval stats_eval scenario_diff_def scenario_mask_def Let_def)

text \<open>
  Claim C7.  When \<open>create_masks\<close> returns with the classification and the
  cross-classification both on, it returns three masks of one size; at every pixel the
  coherent and the incoherent mask do not hold together, and one of them holds iff the
  standard mask does.
\<close>

theorem coherent_incoherent_partition:
  assumes "create_masks alti nd True support True desc ro = Inr (masks, modes, no_out)"
  shows "modes = [''standard'', ''coherent-classification'', ''incoherent-classification'']
         \<and> length masks = 3
         \<and> length (masks ! 1) = length (masks ! 0) \<and> length (masks ! 2) = length (masks ! 0)
         \<and> (\<forall>p < length (masks ! 0).
               \<not> (masks ! 1 ! p \<and> masks ! 2 ! p)
               \<and> ((masks ! 1 ! p \<or> masks ! 2 ! p) \<longleftrightarrow> masks ! 0 ! p))"
  using assms unfolding create_masks_def Let_def
  by (auto split: option.splits sum.splits list.splits prod.splits dest!: mask_mul_Inr)

text \<open>It returns when the support and the alpha band have the size of the raster.\<close>

lemma create_masks_cross_returns:
  assumes "length sr = length alti" and "length alpha = length alti"
  shows "\<exists>r. create_masks alti nd True (Some (sr, sn)) True (Some (alpha, n0 # ns)) ro = Inr r"
  using assms
  by (simp add: create_masks_def Let_def mask_mul_def get_nonan_mask_def)

lemma coherent_example:
  "create_masks [Fin 1, Fin 2, NaN] (Fin (- 9999)) True
     (Some ([Fin 5, Fin 5, Fin 5], Fin (- 32768))) True
     (Some ([255, 0, 255], [0, 0, 0, 0])) False
   = Inr ([[True, True, False], [True, False, False], [False, True, False]],
          [''standard'', ''coherent-classification'', ''incoherent-classification''], None)"
  by (simp add: mask_eval)

theorem coherent_incoherent_partition_witness:
  "create_masks [Fin 1, Fin 2, NaN] (Fin (- 9999)) True
     (Some ([Fin 5, Fin 5, Fin 5], Fin (- 32768))) True
     (Some ([255, 0, 255], [0, 0, 0, 0])) False
   = Inr ([[True, True, False], [True, False, False], [False, True, False]],
          [''standard'', ''coherent-classification'', ''incoherent-classification''], None)
   \<and> \<not> ([[True, True, False], [True, False, False], [False, True, False]] ! 1 ! 1
          \<and> [[True, True, False], [True, False, False], [False, True, False]] ! 2 ! 1)
   \<and> (([[True, True, False], [True, False, False], [False, True, False]] ! 1 ! 1
        \<or> [[True, True, False], [True, False, False], [False, True, False]] ! 2 ! 1)
       = [[True, True, False], [True, False, False], [False, True, False]] ! 0 ! 1)"
proof -
  have "(1 :: nat) < length ([[True, True, False], [True, False, False],
                               [False, True, False]] ! 0)"
    by simp
  then show ?thesis
    using coherent_example coherent_incoherent_partition [OF coherent_example] by blast
qed

section \<open>Properties of the statistics engine\<close>

text \<open>The sentinel of an empty record: every statistic but the count is \<open>NaN\<close>.\<close>

lemma stats_computation_empty:
  "nbpts (stats_computation data) = 0 \<Longrightarrow>
   data = [] \<and> max_v (stats_computation data) = NaN \<and> min_v (stats_computation data) = NaN
   \<and> mean (stats_computation data) = NaN \<and> std (stats_computation data) = NaN
   \<and> rmse (stats_computation data) = NaN \<and> median (stats_computation data) = NaN
   \<and> nmad (stats_computation data) = NaN \<and> sum_err (stats_computation data) = NaN
   \<and> sum_err_err (stats_computation data) = NaN"
  by (cases data) (simp_all add: stats_computation_def)

lemma stats_computation_nbpts: "nbpts (stats_computation data) = length data"
  by (cases data) (simp_all add: stats_computation_def)

lemma select_e_same_length: "length keep = length xs \<Longrightarrow> select_e xs keep = Inr (select xs keep)"
  by (simp add: select_e_def)

lemma stats_record_returns:
  assumes "dz \<noteq> []" and "length keep = length dz" and "length keep90 = length dz"
  shows "\<exists>r. stats_record dz (Inr keep) (Inr l) (Inr n) (Inr keep90) = Inr r \<and> empty_sentinel r"
proof -
  let ?c = "stats_computation (select dz keep)"
  let ?r = "stats.extend ?c (set_stats.fields l n
              (Fin (100 * real (nbpts ?c) / real (length dz)))
              (nighty_percentile (select dz keep90)))"
  have "stats_record dz (Inr keep) (Inr l) (Inr n) (Inr keep90) = Inr ?r"
    using assms
    by (simp add: stats_record_def e_bind_def select_e_same_length py_percent_def)
  moreover have "empty_sentinel ?r"
    using stats_computation_empty [of "select dz keep"]
    by (simp add: empty_sentinel_def stats.extend_def set_stats.fields_def stats.defs set_stats.defs)
  ultimately show ?thesis by blast
qed

lemma mask_mul_same_length:
  "length a = length b \<Longrightarrow> mask_mul a b = Inr (map2 (\<and>) a b)"
  by (simp add: mask_mul_def)

lemma stats_of_sets_returns:
  assumes "dz \<noteq> []" and "length to_keep = length dz" and "length no_out = length dz"
    and "\<forall>s \<in> set ss. length s = length dz"
    and "length ss \<le> length ls" and "length ss \<le> length ns"
    and "\<forall>i \<in> set idxs. i < length ss"
  shows "\<exists>rs. stats_of_sets dz to_keep no_out ss ls ns idxs = Inr rs
              \<and> length rs = length idxs \<and> (\<forall>r \<in> set rs. empty_sentinel r)"
  using assms(7)
proof (induction idxs)
  case Nil
  then show ?case by simp
next
  case (Cons i idxs)
  then have i: "i < length ss" by simp
  then have len: "length (ss ! i) = length dz" using assms(4) by simp
  have m1: "mask_mul (ss ! i) to_keep = Inr (map2 (\<and>) (ss ! i) to_keep)"
    using len assms(2) by (simp add: mask_mul_same_length)
  have m2: "mask_mul (map2 (\<and>) (ss ! i) to_keep) no_out
              = Inr (map2 (\<and>) (map2 (\<and>) (ss ! i) to_keep) no_out)"
    using len assms(2,3) by (simp add: mask_mul_same_length)
  have l: "py_nth ls i = Inr (ls ! i)" "py_nth ns i = Inr (ns ! i)"
    using i assms(5,6) by (simp_all add: py_nth_def)
  obtain r where r: "stats_record dz (Inr (map2 (\<and>) (map2 (\<and>) (ss ! i) to_keep) no_out))
                       (Inr (ls ! i)) (Inr (ns ! i)) (Inr (map2 (\<and>) (ss ! i) to_keep)) = Inr r"
      "empty_sentinel r"
    using stats_record_returns [OF assms(1), of "map2 (\<and>) (map2 (\<and>) (ss ! i) to_keep) no_out"
        "map2 (\<and>) (ss ! i) to_keep" "ls ! i" "ns ! i"] len assms(2,3)
    by auto
  obtain rs where rs: "stats_of_sets dz to_keep no_out ss ls ns idxs = Inr rs"
      "length rs = length idxs" "\<forall>r \<in> set rs. empty_sentinel r"
    using Cons by auto
  show ?case
    using r rs by (simp add: m1 m2 l e_bind_def)
qed


text \<open>
  Claim C3.  For a raster with at least one pixel, masks and sets of the raster's size, and
  labels and names for every set, \<open>get_stats\<close> returns, and every record it returns whose
  count is zero has zero percent and \<open>NaN\<close> for the maximum, the minimum, the mean, the
  deviation, the RMSE, the median, the NMAD, the sum and the sum of squares.
\<close>

theorem empty_population_record:
  assumes "dz \<noteq> []"
    and "\<forall>m. to_keep_mask = Some m \<longrightarrow> length m = length dz"
    and "\<forall>m. no_outliers_mask = Some m \<longrightarrow> length m = length dz"
    and "\<forall>ss. sets = Some ss \<longrightarrow> (\<forall>s \<in> set ss. length s = length dz)"
    and "\<forall>ss ls ns. sets = Some ss \<and> sets_labels = Some ls \<and> sets_names = Some ns \<longrightarrow>
           length ss \<le> length ls \<and> length ss \<le> length ns"
  shows "\<exists>recs. get_stats dz to_keep_mask no_outliers_mask sets sets_labels sets_names = Inr recs
           \<and> recs \<noteq> []
           \<and> (\<forall>r \<in> set recs. nbpts r = 0 \<longrightarrow>
                 percent r = Fin 0 \<and> max_v r = NaN \<and> min_v r = NaN \<and> mean r = NaN
                 \<and> std r = NaN \<and> rmse r = NaN \<and> median r = NaN \<and> nmad r = NaN
                 \<and> sum_err r = NaN \<and> sum_err_err r = NaN)"
proof -
  define ones where "ones = replicate (length dz) True"
  define to_keep where "to_keep = (case to_keep_mask of None \<Rightarrow> ones | Some m \<Rightarrow> m)"
  define no_out where "no_out = (case no_outliers_mask of None \<Rightarrow> ones | Some m \<Rightarrow> m)"
  have k: "length to_keep = length dz"
    using assms(2) by (simp add: to_keep_def ones_def split: option.splits)
  have n: "length no_out = length dz"
    using assms(3) by (simp add: no_out_def ones_def split: option.splits)
  obtain first where first:
    "stats_record dz (mask_mul to_keep no_out) (Inr ''all'') (Inr ''All classes considered'')
       (Inr to_keep) = Inr first" "empty_sentinel first"
    using stats_record_returns [OF assms(1), of "map2 (\<and>) to_keep no_out" to_keep] k n
    by (auto simp: mask_mul_same_length)
  have unfold: "get_stats dz to_keep_mask no_outliers_mask sets sets_labels sets_names =
      (case (sets, sets_labels, sets_names) of
         (Some ss, Some ls, Some ns) \<Rightarrow>
           e_bind (stats_of_sets dz to_keep no_out ss ls ns [0 ..< length ss])
             (\<lambda>rs. Inr (first # rs))
       | _ \<Rightarrow> Inr [first])"
    using first(1) unfolding to_keep_def no_out_def ones_def
    by (simp add: get_stats_def Let_def e_bind_def)
  have "\<exists>recs. get_stats dz to_keep_mask no_outliers_mask sets sets_labels sets_names = Inr recs
           \<and> recs \<noteq> [] \<and> (\<forall>r \<in> set recs. empty_sentinel r)"
  proof (cases "\<exists>ss ls ns. sets = Some ss \<and> sets_labels = Some ls \<and> sets_names = Some ns")
    case True
    then obtain ss ls ns where g: "sets = Some ss" "sets_labels = Some ls" "sets_names = Some ns"
      by blast
    obtain rs where rs: "stats_of_sets dz to_keep no_out ss ls ns [0 ..< length ss] = Inr rs"
        "\<forall>r \<in> set rs. empty_sentinel r"
      using stats_of_sets_returns [OF assms(1) k n, of ss ls ns "[0 ..< length ss]"]
        assms(4,5) g by auto
    show ?thesis unfolding unfold using first(2) rs by (simp add: g e_bind_def)
  next
    case False
    then have "get_stats dz to_keep_mask no_outliers_mask sets sets_labels sets_names
                 = Inr [first]"
      by (auto simp: unfold split: option.splits)
    then show ?thesis using first(2) by simp
  qed
  then show ?thesis by (auto simp: empty_sentinel_def)
qed

text \<open>On a raster without pixels the percentage divides by zero.\<close>

lemma get_stats_no_pixel: "get_stats [] None None None None None = Inl ZeroDivisionError"
  by (simp add: get_stats_def stats_record_def e_bind_def mask_mul_def select_e_def
      py_percent_def)

text \<open>
  Two pixels, both kept, and two classes of which the second is empty: the record of the
  second class is the sentinel.
\<close>

lemma empty_class_example:
  "map_sum id (map (\<lambda>r. (nbpts r, percent r, mean r, nmad r)))
     (get_stats [Fin 1, Fin 3] (Some [True, True]) None
        (Some [[True, True], [False, False]]) (Some [''a'', ''b'']) (Some [''A'', ''B'']))
   = Inr [(2, Fin 100, Fin 2, Fin 1.4826), (2, Fin 100, Fin 2, Fin 1.4826),
          (0, Fin 0, NaN, NaN)]"
  by (simp add: mask_eval stats_eval upt_rec py_nth_def)

theorem empty_population_record_witness:
  "\<exists>recs. get_stats [Fin 1, Fin 3] (Some [True, True]) None
            (Some [[True, True], [False, False]]) (Some [''a'', ''b'']) (Some [''A'', ''B''])
          = Inr recs
        \<and> nbpts (recs ! 2) = 0 \<and> percent (recs ! 2) = Fin 0 \<and> mean (recs ! 2) = NaN
        \<and> std (recs ! 2) = NaN \<and> sum_err (recs ! 2) = NaN"
proof -
  have h1: "[Fin 1, Fin 3] \<noteq> []" by simp
  obtain recs where recs:
    "get_stats [Fin 1, Fin 3] (Some [True, True]) None
       (Some [[True, True], [False, False]]) (Some [''a'', ''b'']) (Some [''A'', ''B''])
     = Inr recs"
    "\<forall>r \<in> set recs. nbpts r = 0 \<longrightarrow>
        percent r = Fin 0 \<and> max_v r = NaN \<and> min_v r = NaN \<and> mean r = NaN
        \<and> std r = NaN \<and> rmse r = NaN \<and> median r = NaN \<and> nmad r = NaN
        \<and> sum_err r = NaN \<and> sum_err_err r = NaN"
    using empty_population_record [OF h1, of "Some [True, True]" None
        "Some [[True, True], [False, False]]" "Some [''a'', ''b'']" "Some [''A'', ''B'']"]
    by auto
  have "map nbpts recs = [2, 2, 0]"
    using empty_class_example recs(1) by (auto simp: map_eq_Cons_conv)
  then have "length recs = 3" "nbpts (recs ! 2) = 0"
    by (auto simp: map_eq_Cons_conv)
  then show ?thesis using recs by (intro exI [of _ recs]) simp
qed










section \<open>Properties of the comparator\<close>

text \<open>
  \<open>ilog2\<close> is the exponent of the binade: for \<open>x > 0\<close>,
  \<open>2 ^ ilog2 x \<le> x < 2 ^ (ilog2 x + 1)\<close>; and rounding to an integer moves by a half at
  most.
\<close>

lemma pow2_nonneg_exp: "pow2 (int k) = 2 ^ k"
  by (simp add: pow2_def)

lemma pow2_neg_exp: "pow2 (- int k) = 1 / 2 ^ k"
proof (cases "k = 0")
  case True
  then show ?thesis by (simp add: pow2_def)
next
  case False
  then have "\<not> 0 \<le> - int k" by simp
  then show ?thesis by (simp add: pow2_def)
qed

lemma ilog2_bounds:
  assumes "0 < x"
  shows "pow2 (ilog2 x) \<le> x \<and> x < pow2 (ilog2 x + 1)"
proof (cases "1 \<le> x")
  case True
  define n where "n = nat \<lfloor>x\<rfloor>"
  define k where "k = floorlog 2 n"
  have n: "0 < n" "real n \<le> x" "x < real n + 1"
    unfolding n_def using True by linarith+
  have b: "2 ^ (k - 1) \<le> n" "n < 2 ^ k"
    using floorlog_bounds [of n 2] n(1) by (simp_all add: k_def)
  have k: "0 < k" using n(1) by (simp add: k_def floorlog_def)
  have i: "ilog2 x = int (k - 1)" "ilog2 x + 1 = int k"
    using True k by (simp_all add: ilog2_def n_def k_def)
  have "(2 :: real) ^ (k - 1) \<le> real n"
    using of_nat_mono [OF b(1), where 'a = real] by simp
  then have lo: "2 ^ (k - 1) \<le> x" using n(2) by linarith
  have "n + 1 \<le> 2 ^ k" using b(2) by simp
  then have "real n + 1 \<le> 2 ^ k"
    using of_nat_mono [of "n + 1" "2 ^ k", where 'a = real] by simp
  then have hi: "x < 2 ^ k" using n(3) by linarith
  have e: "pow2 (ilog2 x) = 2 ^ (k - 1)" "pow2 (ilog2 x + 1) = 2 ^ k"
    by (metis i(1) pow2_nonneg_exp) (metis i(2) pow2_nonneg_exp)
  show ?thesis using lo hi by (simp only: e)
next
  case False
  define y where "y = 1 / x"
  define n where "n = nat (\<lceil>y\<rceil> - 1)"
  define k where "k = floorlog 2 n"
  have y: "1 < y" using False assms by (simp add: y_def)
  then have c: "2 \<le> \<lceil>y\<rceil>" by linarith
  have n: "0 < n" "real n < y" "y \<le> real n + 1"
    unfolding n_def using c by linarith+
  have b: "2 ^ (k - 1) \<le> n" "n < 2 ^ k"
    using floorlog_bounds [of n 2] n(1) by (simp_all add: k_def)
  have k: "0 < k" using n(1) by (simp add: k_def floorlog_def)
  have i: "ilog2 x = - int k" "ilog2 x + 1 = - int (k - 1)"
    using False k by (simp_all add: ilog2_def n_def k_def y_def)
  have "(2 :: real) ^ (k - 1) \<le> real n"
    using of_nat_mono [OF b(1), where 'a = real] by simp
  then have lo: "2 ^ (k - 1) < y" using n(2) by linarith
  have "n + 1 \<le> 2 ^ k" using b(2) by simp
  then have "real n + 1 \<le> 2 ^ k"
    using of_nat_mono [of "n + 1" "2 ^ k", where 'a = real] by simp
  then have hi: "y \<le> 2 ^ k" using n(3) by linarith
  have x: "x = 1 / y" using assms by (simp add: y_def)
  have "1 / 2 ^ k \<le> x"
    unfolding x using hi y by (simp add: frac_le)
  moreover have "x < 1 / 2 ^ (k - 1)"
    unfolding x using lo y by (simp add: frac_less2)
  moreover have "pow2 (ilog2 x) = 1 / 2 ^ k" "pow2 (ilog2 x + 1) = 1 / 2 ^ (k - 1)"
    by (metis i(1) pow2_neg_exp) (metis i(2) pow2_neg_exp)
  ultimately show ?thesis by simp
qed

lemma round_half_even_error: "\<bar>of_int (round_half_even x) - x\<bar> \<le> 1 / 2"
  unfolding round_half_even_def Let_def by (auto; linarith)

lemma floorlog_Bit0: "floorlog 2 (numeral (Num.Bit0 k)) = floorlog 2 (numeral k) + 1"
  by (subst compute_floorlog) (simp add: numeral_Bit0_div_2)

lemma floorlog_Bit1: "floorlog 2 (numeral (Num.Bit1 k)) = floorlog 2 (numeral k) + 1"
  by (subst compute_floorlog) (simp add: numeral_Bit1_div_2)

lemma floorlog_small: "floorlog 2 (Suc 0) = 1" "floorlog 2 1 = 1" "floorlog 2 0 = 0"
  by (simp_all add: compute_floorlog)

lemmas b64_eval = b64_round_def ilog2_def floorlog_Bit0 floorlog_Bit1 floorlog_small pow2_def
  round_half_even_def Let_def

lemmas float_eval = py_float_def py_strip_def whitespace_def to_lower_def parse_decimal_def
  parse_exponent_def is_digit_def digit_val_def digits_val_def pow10_def

text \<open>The floats of the scenario.\<close>

lemma float_1: "py_float ''1.0'' = Inr (Fin 1)"
  by (simp add: float_eval b64_eval)

lemma float_2: "py_float ''2.0'' = Inr (Fin 2)"
  by (simp add: float_eval b64_eval)

lemma float_2_ulp_half: "py_float ''2.0000000000000002'' = Inr (Fin 2)"
  by (simp add: float_eval b64_eval)

lemma float_2_next: "py_float ''2.0000000000000004'' = Inr (Fin (4503599627370497 / 2 ^ 51))"
  by (simp add: float_eval b64_eval)

lemma float_epsilon: "py_float ''1.e-15'' = Inr epsilon_default"
  by (simp add: float_eval b64_eval epsilon_default_def)

lemma float_nan: "py_float ''nan'' = Inr NaN"
  by (simp add: float_eval)

lemma columns_header: "columns header_line = [''Set Name'', ''Mean Error'', ''Error std'']"
  by (simp add: columns_def py_strip_def header_line_def)

lemma columns_baseline: "columns baseline_line = [''A'', ''1.0'', ''2.0'']"
  by (simp add: columns_def py_strip_def baseline_line_def)

lemma columns_test: "columns test_line = [''A'', ''1.0'', ''2.0000000000000002'']"
  by (simp add: columns_def py_strip_def test_line_def)

lemma columns_test_next: "columns test_line_next = [''A'', ''1.0'', ''2.0000000000000004'']"
  by (simp add: columns_def py_strip_def test_line_next_def)

lemma parsed_baseline: "parsed_row baseline_line ''A'' [Fin 1, Fin 2]"
  by (simp add: parsed_row_def columns_baseline e_bind_def float_1 float_2)

lemma parsed_test: "parsed_row test_line ''A'' [Fin 1, Fin 2]"
  by (simp add: parsed_row_def columns_test e_bind_def float_1 float_2_ulp_half)

lemma parsed_test_next: "parsed_row test_line_next ''A'' [Fin 1, Fin (4503599627370497 / 2 ^ 51)]"
  by (simp add: parsed_row_def columns_test_next e_bind_def float_1 float_2_next)

text \<open>The loop body on a pair of rows that parse.\<close>

lemma e_map_stat_names:
  "\<forall>i \<in> set idxs. i + 1 < length cols \<Longrightarrow>
   e_map (\<lambda>index. e_bind (py_nth cols (index + 1)) (\<lambda>stat. Inr (f index stat))) idxs
     = Inr (map (\<lambda>i. f i (cols ! (i + 1))) idxs)"
  by (induction idxs) (simp_all add: e_bind_def py_nth_def)

lemma check_row_parsed:
  assumes "parsed_row row_ref name f_ref" and "parsed_row row_test name f_test"
    and "min (length f_ref) (length f_test) < length (columns header)"
  shows "check_row header file epsilon row_ref row_test
           = Inr (row_differences header file epsilon name f_ref f_test)"
proof -
  obtain vals_ref where r: "columns row_ref = name # vals_ref" "e_map py_float vals_ref = Inr f_ref"
    using assms(1) by (auto simp: parsed_row_def split: list.splits)
  obtain vals_test where t: "columns row_test = name # vals_test"
      "e_map py_float vals_test = Inr f_test"
    using assms(2) by (auto simp: parsed_row_def split: list.splits)
  let ?n = "min (length f_ref) (length f_test)"
  let ?results = "map2 (\<lambda>ref test. fl_le (fl_abs (py_sub ref test)) epsilon) f_ref f_test"
  let ?bad = "filter (\<lambda>i. \<not> fl_le (fl_abs (py_sub (f_ref ! i) (f_test ! i))) epsilon) [0 ..< ?n]"
  have idx: "filter (\<lambda>i. \<not> ?results ! i) [0 ..< ?n] = ?bad"
    by (rule filter_cong) auto
  have bound: "\<forall>i \<in> set ?bad. i + 1 < length (columns header)"
    using assms(3) by auto
  have "e_map (\<lambda>index. e_bind (py_nth (columns header) (index + 1)) (\<lambda>stat.
            Inr \<lparr> csv_file = file, class_name = name, stat_name = stat,
                  baseline_val = f_ref ! index, test_val = f_test ! index \<rparr>)) ?bad
        = Inr (row_differences header file epsilon name f_ref f_test)"
    unfolding row_differences_def
    by (rule e_map_stat_names [OF bound])
  then show ?thesis
    by (simp add: check_row_def r t e_bind_def Let_def idx)
qed


lemma check_rows_parsed:
  assumes "\<forall>k < length rs.
             parsed_row (fst (rs ! k)) (name k) (f_ref k)
             \<and> parsed_row (snd (rs ! k)) (name k) (f_test k)
             \<and> min (length (f_ref k)) (length (f_test k)) < length (columns header)"
  shows "check_rows header file epsilon rs
           = Inr (concat (map (\<lambda>k. row_differences header file epsilon
                                  (name k) (f_ref k) (f_test k)) [0 ..< length rs]))"
  using assms
proof (induction rs arbitrary: name f_ref f_test)
  case Nil
  then show ?case by simp
next
  case (Cons r rs)
  obtain a b where r: "r = (a, b)" by (cases r)
  have head: "check_row header file epsilon a b
                = Inr (row_differences header file epsilon (name 0) (f_ref 0) (f_test 0))"
    using Cons.prems r check_row_parsed [of a "name 0" "f_ref 0" b "f_test 0" header] by auto
  have "\<forall>k < length rs.
          parsed_row (fst (rs ! k)) (name (Suc k)) (f_ref (Suc k))
          \<and> parsed_row (snd (rs ! k)) (name (Suc k)) (f_test (Suc k))
          \<and> min (length (f_ref (Suc k))) (length (f_test (Suc k))) < length (columns header)"
    using Cons.prems by auto
  from Cons.IH [of "\<lambda>k. name (Suc k)" "\<lambda>k. f_ref (Suc k)" "\<lambda>k. f_test (Suc k)", OF this]
  have tail: "check_rows header file epsilon rs
                = Inr (concat (map (\<lambda>k. row_differences header file epsilon
                                       (name (Suc k)) (f_ref (Suc k)) (f_test (Suc k)))
                                 [0 ..< length rs]))" .
  have upt: "[0 ..< length (r # rs)] = 0 # map Suc [0 ..< length rs]"
    by (metis length_Cons map_Suc_upt upt_conv_Cons zero_less_Suc)
  show ?case
    unfolding upt by (simp add: r head tail e_bind_def comp_def)
qed

text \<open>
  Claim C8, as the code has it.  For files whose common rows parse and agree on the class
  names, under a header with a name for every column compared, \<open>check_csv\<close> returns, row
  after row and column after column, one record for exactly those numeric columns whose
  floats fail \<open>abs(ref - test) <= epsilon\<close>, each with the header's name of the column.
\<close>

theorem check_csv_differences:
  assumes "\<forall>k < min (length rows_ref) (length rows_test).
             parsed_row (rows_ref ! k) (name k) (f_ref k)
             \<and> parsed_row (rows_test ! k) (name k) (f_test k)
             \<and> min (length (f_ref k)) (length (f_test k)) < length (columns header)"
  shows "check_csv (header # rows_ref) (header # rows_test) file epsilon
           = Inr (concat (map (\<lambda>k. row_differences header file epsilon
                                  (name k) (f_ref k) (f_test k))
                            [0 ..< min (length rows_ref) (length rows_test)]))"
proof -
  have "\<forall>k < length (zip rows_ref rows_test).
          parsed_row (fst (zip rows_ref rows_test ! k)) (name k) (f_ref k)
          \<and> parsed_row (snd (zip rows_ref rows_test ! k)) (name k) (f_test k)
          \<and> min (length (f_ref k)) (length (f_test k)) < length (columns header)"
    using assms by simp
  from check_rows_parsed [OF this] show ?thesis
    by (simp add: check_csv_def)
qed

text \<open>
  The scenario.  The decimals \<open>2.0\<close> and \<open>2.0000000000000002\<close> denote the same float, so
  the two rows show no difference for any tolerance, zero included.  The next float after
  \<open>2.0\<close> is \<open>2.0000000000000004\<close>: against it there is no difference within \<open>1.e-15\<close> and
  exactly one difference, in the column \<open>Error std\<close>, for the tolerance zero.
\<close>

lemma one_row:
  "check_csv [header, row_ref] [header, row_test] file epsilon
     = e_bind (check_row header file epsilon row_ref row_test) (\<lambda>ds. Inr ds)"
  by (simp add: check_csv_def e_bind_def split: sum.splits)

lemmas diff_eval = row_differences_def py_sub_def fl_sub_def columns_header upt_rec

lemma scenario_within_default:
  "check_csv [header_line, baseline_line] [header_line, test_line] ''stats.csv'' epsilon_default
     = Inr []"
  using check_row_parsed [OF parsed_baseline parsed_test, of header_line]
  by (simp add: one_row e_bind_def diff_eval epsilon_default_def b64_eval)

lemma scenario_next_within_default:
  "check_csv [header_line, baseline_line] [header_line, test_line_next] ''stats.csv''
     epsilon_default = Inr []"
  using check_row_parsed [OF parsed_baseline parsed_test_next, of header_line]
  by (simp add: one_row e_bind_def diff_eval epsilon_default_def b64_eval)

theorem check_csv_differences_counterexample:
  "py_float ''2.0'' = Inr (Fin 2) \<and> py_float ''2.0000000000000002'' = Inr (Fin 2)
   \<and> check_csv [header_line, baseline_line] [header_line, test_line] ''stats.csv'' (Fin 0)
       = Inr []"
  using check_row_parsed [OF parsed_baseline parsed_test, of header_line]
  by (simp add: one_row e_bind_def diff_eval b64_eval float_2 float_2_ulp_half)

theorem check_csv_differences_witness:
  "check_csv [header_line, baseline_line] [header_line, test_line_next] ''stats.csv'' (Fin 0)
     = Inr [\<lparr> csv_file = ''stats.csv'', class_name = ''A'', stat_name = ''Error std'',
              baseline_val = Fin 2, test_val = Fin (4503599627370497 / 2 ^ 51) \<rparr>]"
proof -
  have "\<forall>k < min (length [baseline_line]) (length [test_line_next]).
          parsed_row ([baseline_line] ! k) ''A'' [Fin 1, Fin 2]
          \<and> parsed_row ([test_line_next] ! k) ''A'' [Fin 1, Fin (4503599627370497 / 2 ^ 51)]
          \<and> min (length [Fin 1, Fin 2]) (length [Fin 1, Fin (4503599627370497 / 2 ^ 51)])
              < length (columns header_line)"
    using parsed_baseline parsed_test_next by (simp add: columns_header)
  from check_csv_differences [of "[baseline_line]" "[test_line_next]" "\<lambda>k. ''A''"
      "\<lambda>k. [Fin 1, Fin 2]" "\<lambda>k. [Fin 1, Fin (4503599627370497 / 2 ^ 51)]" header_line
      "''stats.csv''" "Fin 0", OF this]
  show ?thesis
    by (simp add: diff_eval b64_eval)
qed

text \<open>
  Two rows that both hold \<open>nan\<close> are reported as different: the test \<open>abs(ref - test) <=
  epsilon\<close> is false on \<open>NaN\<close>.
\<close>

lemma nan_columns_differ:
  "check_csv [''Set Name,Mean Error'', ''A,nan''] [''Set Name,Mean Error'', ''A,nan'']
     ''stats.csv'' epsilon_default
   = Inr [\<lparr> csv_file = ''stats.csv'', class_name = ''A'', stat_name = ''Mean Error'',
            baseline_val = NaN, test_val = NaN \<rparr>]"
  by (simp add: one_row check_row_def columns_def py_strip_def e_bind_def float_nan py_sub_def
      fl_sub_def py_nth_def epsilon_default_def)

text \<open>
  Claim C10.  \<open>check_csv\<close> pairs the data rows with \<open>zip\<close>: the rows of the longer file
  beyond the length of the shorter one have no part in the result, neither as a difference
  nor as an error.
\<close>

theorem check_csv_surplus_rows:
  "check_csv (header # rows_ref) (header_test # rows_test) file epsilon
     = check_csv (header # take (min (length rows_ref) (length rows_test)) rows_ref)
         (header_test # take (min (length rows_ref) (length rows_test)) rows_test)
         file epsilon"
proof -
  let ?n = "min (length rows_ref) (length rows_test)"
  have "zip (take ?n rows_ref) (take ?n rows_test) = take ?n (zip rows_ref rows_test)"
    by (simp add: take_zip)
  also have "\<dots> = zip rows_ref rows_test" by simp
  finally show ?thesis by (simp add: check_csv_def)
qed

text \<open>
  A test file that lacks the last class of the baseline passes, whatever that row holds.
\<close>

theorem check_csv_surplus_rows_witness:
  "check_csv [header_line, baseline_line, ''B,not a number''] [header_line, test_line]
     ''stats.csv'' epsilon_default = Inr []"
  using check_csv_surplus_rows [of header_line "[baseline_line, ''B,not a number'']"
      header_line "[test_line]" "''stats.csv''" epsilon_default] scenario_within_default
  by simp

section \<open>The statistics and histogram steps leave the grids as they were\<close>





lemma kept_alloc: "alloc h ob = (a, h') \<Longrightarrow> kept h h' \<and> a = length h \<and> length h' = Suc (length h)"
  by (auto simp: alloc_def kept_def nth_append)

lemma kept_but_update: "kept h h' \<Longrightarrow> kept_but l h (h'[l := ob])"
  by (auto simp: kept_def kept_but_def)










lemmas heap_eval = mode_step_def plot_histograms_def plot_set_def get_stats_h_def get_farr_def
  get_barr_def get_plist_def get_mask_opt_def alloc_def bins_bound_def roundUp_def
  np_nanmin_def np_nanmax_def py_nth_def

text \<open>
  There the loop returns, and the store it leaves holds, after the six objects it found,
  the mask of the histograms, the grid of ones, the list that \<open>plot_histograms\<close> was given,
  now with the three products in its slots, and the three products.
\<close>

lemma example_loop_returns:
  "map_sum id (map (\<lambda>(mode_stats, labels_saved). (map nbpts mode_stats, labels_saved)))
     (snd (modes_loop (\<lambda>set_idx data. True) 0 1 (Some 2) (Some 5) (Some [''a'', ''b''])
             (Some [''A'', ''B'']) [(0, 0, 1), (0, 1, 0)] example_heap [1]))
   = Inr [([2, 1, 1], [''all'', ''a'', ''b''])]"
  by (simp add: heap_eval mask_eval stats_eval example_heap_def upt_rec)

lemma example_heap_after:
  "fst (modes_loop (\<lambda>set_idx data. True) 0 1 (Some 2) (Some 5) (Some [''a'', ''b''])
          (Some [''A'', ''B'']) [(0, 0, 1), (0, 1, 0)] example_heap [1])
   = example_heap @ [BArr [True, True], BArr [True, True], PList [9, 10, 11],
                     BArr [True, True], BArr [True, False], BArr [False, True]]"
  by (simp add: heap_eval mask_eval stats_eval example_heap_def upt_rec)

text \<open>
  \<open>plot_histograms\<close> itself assigns into the list it is given: called on the list of the
  class grids, it leaves other grids in its slots.
\<close>

lemma plot_histograms_rebinds:
  "fst (plot_histograms (\<lambda>set_idx data. True) example_heap 0 1 (Some 1) (Some 5)
          (Some [''a'', ''b'']) (Some [(0, 0, 1), (0, 1, 0)])) ! 5 = PList [6, 7]"
  by (simp add: heap_eval mask_eval stats_eval example_heap_def upt_rec)

end
